theory Spec2Isabelle
  imports Main
begin

section \<open>The preferences dialog (app/src/ui/preferences/preferences.tsx)\<close>

text \<open>
  The component keeps a draft of the preferences in its React state, fills it when it
  mounts, changes it in its event handlers and writes it back in \<open>onSave\<close>. The model
  has the state and the data props as records, every call to a collaborator (the git
  configuration store, the default-branch helper, the dispatcher, the \<open>onDismissed\<close>
  callback) as an event of a trace, and an exception as a value.
\<close>

subsection \<open>Data\<close>

text \<open>
  \<open>PreferencesTab\<close> is imported from \<open>models/preferences\<close>; its members are the cases of
  the switch in \<open>renderActiveTab\<close>.
\<close>

datatype PreferencesTab = Accounts | Integrations | Git | Appearance | Prompts | Advanced

text \<open>
  \<open>Shell\<close>, \<open>ApplicationTheme\<close>, \<open>UncommittedChangesStrategy\<close> and \<open>Repository\<close> are
  declared in other modules. The component only stores them and hands them on, so each
  is a name here. Of an \<open>Account\<close> only \<open>login\<close> is read.
\<close>

type_synonym Shell = string
type_synonym ApplicationTheme = string
type_synonym UncommittedChangesStrategy = string
type_synonym Repository = string

record Account =
  login :: string

text \<open>
  The data fields of \<open>IPreferencesProps\<close>. A prop that shares its name with a state
  field carries the suffix \<open>_prop\<close>. The \<open>dispatcher\<close> and \<open>onDismissed\<close> props are
  collaborators: calls to them are events (below).
\<close>

record IPreferencesProps =
  dotComAccount :: "Account option"
  enterpriseAccount :: "Account option"
  repository :: "Repository option"
  optOutOfUsageTracking_prop :: bool
  initialSelectedTab :: "PreferencesTab option"
  confirmRepositoryRemoval_prop :: bool
  confirmDiscardChanges_prop :: bool
  confirmForcePush_prop :: bool
  uncommittedChangesStrategy_prop :: UncommittedChangesStrategy
  selectedExternalEditor_prop :: "string option"
  selectedShell_prop :: Shell
  selectedTheme :: ApplicationTheme
  repositoryIndicatorsEnabled_prop :: bool

text \<open>
  \<open>IPreferencesState\<close>. A field of type \<open>string | null\<close> is a \<open>string option\<close>; the
  optional \<open>existingLockFilePath\<close> is \<open>None\<close> when it is \<open>undefined\<close>.
\<close>

record IPreferencesState =
  selectedIndex :: PreferencesTab
  committerName :: string
  committerEmail :: string
  defaultBranch :: string
  mergeToolName :: string
  mergeToolCommand :: string
  initialCommitterName :: "string option"
  initialCommitterEmail :: "string option"
  initialDefaultBranch :: "string option"
  initialMergeToolName :: "string option"
  initialMergeToolCommand :: "string option"
  initialUseCustomMergeTool :: bool
  disallowedCharactersMessage :: "string option"
  optOutOfUsageTracking :: bool
  confirmRepositoryRemoval :: bool
  confirmDiscardChanges :: bool
  confirmForcePush :: bool
  useCustomMergeTool :: bool
  uncommittedChangesStrategy :: UncommittedChangesStrategy
  availableEditors :: "string list"
  selectedExternalEditor :: "string option"
  availableShells :: "Shell list"
  selectedShell :: Shell
  existingLockFilePath :: "string option"
  repositoryIndicatorsEnabled :: bool

subsection \<open>Collaborators\<close>

text \<open>
  The functions and constants the component imports from other modules are parameters.
  \<open>parseConfigLockFilePathFromError\<close> stands for the source's
  \<open>parseConfigLockFilePathFromError(e.result)\<close>.
\<close>

record 'e lib =
  isConfigFileLockError :: "'e \<Rightarrow> bool"
  parseConfigLockFilePathFromError :: "'e \<Rightarrow> string option"
  lookupPreferredEmail :: "Account \<Rightarrow> string"
  gitAuthorNameIsValid :: "string \<Rightarrow> bool"
  InvalidGitAuthorNameMessage :: string
  defaultUncommittedChangesStrategy :: UncommittedChangesStrategy

text \<open>What \<open>componentWillMount\<close> reads: the global git configuration, the default
  branch, and the editors and shells found (each with the path it was found at).\<close>

record sources =
  getGlobalConfigValue :: "string \<Rightarrow> string option"
  getDefaultBranch :: string
  getAvailableEditors :: "(string \<times> string) list"
  getAvailableShells :: "(Shell \<times> string) list"

text \<open>
  A call that changes something outside the component: the three writers of the
  configuration store and the commands of the dispatcher.
\<close>

datatype call =
    SetGlobalConfigValue string string
  | RemoveGlobalConfigValue string
  | SetDefaultBranch string
  | RefreshAuthor Repository
  | SetRepositoryIndicatorsEnabled bool
  | SetStatsOptOut bool bool
  | SetConfirmRepoRemovalSetting bool
  | SetConfirmForcePushSetting bool
  | SetExternalEditor string
  | SetShell Shell
  | SetConfirmDiscardChangesSetting bool
  | SetUncommittedChangesStrategySetting UncommittedChangesStrategy
  | SetSelectedTheme ApplicationTheme
  | RemoveAccount Account
  | ShowDotComSignInDialog
  | ShowEnterpriseSignInDialog

text \<open>
  What the component does to the outside, in order: it issues a call, invokes
  \<open>props.onDismissed\<close>, or hands an error to \<open>dispatcher.postError\<close>.
\<close>

datatype 'e event = Issue call | OnDismissed | PostError 'e

subsection \<open>JavaScript values\<close>

text \<open>A \<open>string | null\<close> is falsy when it is \<open>null\<close> or the empty string.\<close>

definition truthy :: "string option \<Rightarrow> bool" where
  "truthy v = (case v of None \<Rightarrow> False | Some s \<Rightarrow> s \<noteq> '''')"

text \<open>\<open>v || ''\<close> for a \<open>string | null\<close>: the only falsy string is the empty one.\<close>

definition orEmpty :: "string option \<Rightarrow> string" where
  "orEmpty v = (case v of None \<Rightarrow> '''' | Some s \<Rightarrow> s)"

text \<open>\<open>a || b\<close> for two objects or \<open>null\<close>: an object is always truthy.\<close>

definition orElse :: "'a option \<Rightarrow> 'a option \<Rightarrow> 'a option" where
  "orElse a b = (case a of Some x \<Rightarrow> Some x | None \<Rightarrow> b)"

text \<open>A \<open>string | null\<close> inside a string concatenation: \<open>null\<close> becomes \<open>'null'\<close>.\<close>

definition toStr :: "string option \<Rightarrow> string" where
  "toStr v = (case v of None \<Rightarrow> ''null'' | Some s \<Rightarrow> s)"

subsection \<open>Construction and loading\<close>

definition constructor_Preferences :: "'e lib \<Rightarrow> IPreferencesProps \<Rightarrow> IPreferencesState" where
  "constructor_Preferences L props =
     \<lparr> selectedIndex = (case initialSelectedTab props of Some t \<Rightarrow> t | None \<Rightarrow> Accounts),
       committerName = '''',
       committerEmail = '''',
       defaultBranch = '''',
       mergeToolName = '''',
       mergeToolCommand = '''',
       initialCommitterName = None,
       initialCommitterEmail = None,
       initialDefaultBranch = None,
       initialMergeToolName = None,
       initialMergeToolCommand = None,
       initialUseCustomMergeTool = False,
       disallowedCharactersMessage = None,
       optOutOfUsageTracking = False,
       confirmRepositoryRemoval = False,
       confirmDiscardChanges = False,
       confirmForcePush = False,
       useCustomMergeTool = False,
       uncommittedChangesStrategy = defaultUncommittedChangesStrategy L,
       availableEditors = [],
       selectedExternalEditor = selectedExternalEditor_prop props,
       availableShells = [],
       selectedShell = selectedShell_prop props,
       existingLockFilePath = None,
       repositoryIndicatorsEnabled = repositoryIndicatorsEnabled_prop props \<rparr>"

text \<open>
  The merge tool's command is read only when a merge tool name is configured
  (lines 138 to 144).
\<close>

definition loadMergeToolCommand :: "sources \<Rightarrow> string option \<Rightarrow> string option" where
  "loadMergeToolCommand W initialMergeToolName' =
     (if truthy initialMergeToolName'
      then getGlobalConfigValue W (''mergetool.'' @ toStr initialMergeToolName' @ ''.cmd'')
      else None)"

text \<open>
  Lines 146 to 161: a missing committer name or email is taken from the dotCom account,
  or else the enterprise account, when there is one. The result is the pair of the
  local variables \<open>committerName\<close> and \<open>committerEmail\<close>, still \<open>string | null\<close>.
\<close>

definition prefillCommitter ::
  "'e lib \<Rightarrow> IPreferencesProps \<Rightarrow> string option \<Rightarrow> string option \<Rightarrow> string option \<times> string option" where
  "prefillCommitter L props name0 email0 =
     (if \<not> truthy name0 \<or> \<not> truthy email0 then
        (case orElse (dotComAccount props) (enterpriseAccount props) of
           Some account \<Rightarrow>
             (if \<not> truthy name0 then Some (login account) else name0,
              if \<not> truthy email0 then Some (lookupPreferredEmail L account) else email0)
         | None \<Rightarrow> (name0, email0))
      else (name0, email0))"

text \<open>\<open>componentWillMount\<close>: the state after its \<open>setState\<close>, when every read has returned.\<close>

definition componentWillMount ::
  "'e lib \<Rightarrow> sources \<Rightarrow> IPreferencesProps \<Rightarrow> IPreferencesState \<Rightarrow> IPreferencesState" where
  "componentWillMount L W props st =
     (let initialCommitterName' = getGlobalConfigValue W ''user.name'';
          initialCommitterEmail' = getGlobalConfigValue W ''user.email'';
          initialDefaultBranch' = getDefaultBranch W;
          initialMergeToolName' = getGlobalConfigValue W ''merge.tool'';
          initialMergeToolCommand' = loadMergeToolCommand W initialMergeToolName';
          committer = prefillCommitter L props initialCommitterName' initialCommitterEmail';
          committerName' = orEmpty (fst committer);
          committerEmail' = orEmpty (snd committer);
          mergeTool = orEmpty initialMergeToolName';
          mergeToolCommand' = orEmpty initialMergeToolCommand'
      in st \<lparr> committerName := committerName',
              committerEmail := committerEmail',
              mergeToolName := mergeTool,
              mergeToolCommand := mergeToolCommand',
              defaultBranch := initialDefaultBranch',
              initialCommitterName := initialCommitterName',
              initialCommitterEmail := initialCommitterEmail',
              initialDefaultBranch := Some initialDefaultBranch',
              initialMergeToolName := initialMergeToolName',
              initialMergeToolCommand := initialMergeToolCommand',
              initialUseCustomMergeTool := truthy initialMergeToolName',
              optOutOfUsageTracking := optOutOfUsageTracking_prop props,
              confirmRepositoryRemoval := confirmRepositoryRemoval_prop props,
              confirmDiscardChanges := confirmDiscardChanges_prop props,
              confirmForcePush := confirmForcePush_prop props,
              uncommittedChangesStrategy := uncommittedChangesStrategy_prop props,
              availableShells := map fst (getAvailableShells W),
              availableEditors := map fst (getAvailableEditors W),
              useCustomMergeTool := truthy initialMergeToolName' \<rparr>)"

subsection \<open>Event handlers\<close>

text \<open>
  Each handler returns the state after its \<open>setState\<close> and the events it causes.
\<close>

definition onRepositoryIndicatorsEnabledChanged ::
  "IPreferencesState \<Rightarrow> bool \<Rightarrow> IPreferencesState \<times> 'e event list" where
  "onRepositoryIndicatorsEnabledChanged st v = (st\<lparr>repositoryIndicatorsEnabled := v\<rparr>, [])"

definition onLockFileDeleted :: "IPreferencesState \<Rightarrow> IPreferencesState \<times> 'e event list" where
  "onLockFileDeleted st = (st\<lparr>existingLockFilePath := None\<rparr>, [])"

definition onLockFileDeleteError ::
  "IPreferencesState \<Rightarrow> 'e \<Rightarrow> IPreferencesState \<times> 'e event list" where
  "onLockFileDeleteError st e = (st, [PostError e])"

definition onOptOutofReportingChanged ::
  "IPreferencesState \<Rightarrow> bool \<Rightarrow> IPreferencesState \<times> 'e event list" where
  "onOptOutofReportingChanged st v = (st\<lparr>optOutOfUsageTracking := v\<rparr>, [])"

definition onConfirmRepositoryRemovalChanged ::
  "IPreferencesState \<Rightarrow> bool \<Rightarrow> IPreferencesState \<times> 'e event list" where
  "onConfirmRepositoryRemovalChanged st v = (st\<lparr>confirmRepositoryRemoval := v\<rparr>, [])"

definition onConfirmDiscardChangesChanged ::
  "IPreferencesState \<Rightarrow> bool \<Rightarrow> IPreferencesState \<times> 'e event list" where
  "onConfirmDiscardChangesChanged st v = (st\<lparr>confirmDiscardChanges := v\<rparr>, [])"

definition onConfirmForcePushChanged ::
  "IPreferencesState \<Rightarrow> bool \<Rightarrow> IPreferencesState \<times> 'e event list" where
  "onConfirmForcePushChanged st v = (st\<lparr>confirmForcePush := v\<rparr>, [])"

definition onUncommittedChangesStrategyChanged ::
  "IPreferencesState \<Rightarrow> UncommittedChangesStrategy \<Rightarrow> IPreferencesState \<times> 'e event list" where
  "onUncommittedChangesStrategyChanged st v = (st\<lparr>uncommittedChangesStrategy := v\<rparr>, [])"

definition onCommitterNameChanged ::
  "'e lib \<Rightarrow> IPreferencesState \<Rightarrow> string \<Rightarrow> IPreferencesState \<times> 'e event list" where
  "onCommitterNameChanged L st v =
     (st\<lparr>committerName := v,
         disallowedCharactersMessage :=
           (if gitAuthorNameIsValid L v then None else Some (InvalidGitAuthorNameMessage L))\<rparr>,
      [])"

definition onMergeToolChanged ::
  "IPreferencesState \<Rightarrow> string \<Rightarrow> IPreferencesState \<times> 'e event list" where
  "onMergeToolChanged st v = (st\<lparr>mergeToolName := v\<rparr>, [])"

definition onUseCustomMergeToolChanged ::
  "IPreferencesState \<Rightarrow> bool \<Rightarrow> IPreferencesState \<times> 'e event list" where
  "onUseCustomMergeToolChanged st v = (st\<lparr>useCustomMergeTool := v\<rparr>, [])"

definition onMergeToolCommandChanged ::
  "IPreferencesState \<Rightarrow> string \<Rightarrow> IPreferencesState \<times> 'e event list" where
  "onMergeToolCommandChanged st v = (st\<lparr>mergeToolCommand := v\<rparr>, [])"

definition onCommitterEmailChanged ::
  "IPreferencesState \<Rightarrow> string \<Rightarrow> IPreferencesState \<times> 'e event list" where
  "onCommitterEmailChanged st v = (st\<lparr>committerEmail := v\<rparr>, [])"

definition onDefaultBranchChanged ::
  "IPreferencesState \<Rightarrow> string \<Rightarrow> IPreferencesState \<times> 'e event list" where
  "onDefaultBranchChanged st v = (st\<lparr>defaultBranch := v\<rparr>, [])"

definition onSelectedEditorChanged ::
  "IPreferencesState \<Rightarrow> string \<Rightarrow> IPreferencesState \<times> 'e event list" where
  "onSelectedEditorChanged st v = (st\<lparr>selectedExternalEditor := Some v\<rparr>, [])"

definition onSelectedShellChanged ::
  "IPreferencesState \<Rightarrow> Shell \<Rightarrow> IPreferencesState \<times> 'e event list" where
  "onSelectedShellChanged st v = (st\<lparr>selectedShell := v\<rparr>, [])"

definition onSelectedThemeChanged ::
  "IPreferencesState \<Rightarrow> ApplicationTheme \<Rightarrow> IPreferencesState \<times> 'e event list" where
  "onSelectedThemeChanged st theme = (st, [Issue (SetSelectedTheme theme)])"

definition onTabClicked ::
  "IPreferencesState \<Rightarrow> PreferencesTab \<Rightarrow> IPreferencesState \<times> 'e event list" where
  "onTabClicked st index = (st\<lparr>selectedIndex := index\<rparr>, [])"

definition onDotComSignIn :: "IPreferencesState \<Rightarrow> IPreferencesState \<times> 'e event list" where
  "onDotComSignIn st = (st, [OnDismissed, Issue ShowDotComSignInDialog])"

definition onEnterpriseSignIn :: "IPreferencesState \<Rightarrow> IPreferencesState \<times> 'e event list" where
  "onEnterpriseSignIn st = (st, [OnDismissed, Issue ShowEnterpriseSignInDialog])"

definition onLogout :: "IPreferencesState \<Rightarrow> Account \<Rightarrow> IPreferencesState \<times> 'e event list" where
  "onLogout st account = (st, [Issue (RemoveAccount account)])"

text \<open>
  What the user (or a child component) can do in the open dialog before saving: one
  constructor for each handler that \<open>render\<close> binds.
\<close>

datatype 'e interaction =
    RepositoryIndicatorsEnabledChanged bool
  | LockFileDeleted
  | LockFileDeleteError 'e
  | OptOutofReportingChanged bool
  | ConfirmRepositoryRemovalChanged bool
  | ConfirmDiscardChangesChanged bool
  | ConfirmForcePushChanged bool
  | UncommittedChangesStrategyChanged UncommittedChangesStrategy
  | CommitterNameChanged string
  | MergeToolChanged string
  | UseCustomMergeToolChanged bool
  | MergeToolCommandChanged string
  | CommitterEmailChanged string
  | DefaultBranchChanged string
  | SelectedEditorChanged string
  | SelectedShellChanged Shell
  | SelectedThemeChanged ApplicationTheme
  | TabClicked PreferencesTab
  | DotComSignIn
  | EnterpriseSignIn
  | Logout Account

fun handle ::
  "'e lib \<Rightarrow> IPreferencesState \<Rightarrow> 'e interaction \<Rightarrow> IPreferencesState \<times> 'e event list" where
  "handle L st (RepositoryIndicatorsEnabledChanged v) = onRepositoryIndicatorsEnabledChanged st v"
| "handle L st LockFileDeleted = onLockFileDeleted st"
| "handle L st (LockFileDeleteError e) = onLockFileDeleteError st e"
| "handle L st (OptOutofReportingChanged v) = onOptOutofReportingChanged st v"
| "handle L st (ConfirmRepositoryRemovalChanged v) = onConfirmRepositoryRemovalChanged st v"
| "handle L st (ConfirmDiscardChangesChanged v) = onConfirmDiscardChangesChanged st v"
| "handle L st (ConfirmForcePushChanged v) = onConfirmForcePushChanged st v"
| "handle L st (UncommittedChangesStrategyChanged v) = onUncommittedChangesStrategyChanged st v"
| "handle L st (CommitterNameChanged v) = onCommitterNameChanged L st v"
| "handle L st (MergeToolChanged v) = onMergeToolChanged st v"
| "handle L st (UseCustomMergeToolChanged v) = onUseCustomMergeToolChanged st v"
| "handle L st (MergeToolCommandChanged v) = onMergeToolCommandChanged st v"
| "handle L st (CommitterEmailChanged v) = onCommitterEmailChanged st v"
| "handle L st (DefaultBranchChanged v) = onDefaultBranchChanged st v"
| "handle L st (SelectedEditorChanged v) = onSelectedEditorChanged st v"
| "handle L st (SelectedShellChanged v) = onSelectedShellChanged st v"
| "handle L st (SelectedThemeChanged v) = onSelectedThemeChanged st v"
| "handle L st (TabClicked v) = onTabClicked st v"
| "handle L st DotComSignIn = onDotComSignIn st"
| "handle L st EnterpriseSignIn = onEnterpriseSignIn st"
| "handle L st (Logout a) = onLogout st a"

text \<open>A run of interactions, one after the other, with the events they cause.\<close>

fun interact ::
  "'e lib \<Rightarrow> IPreferencesState \<Rightarrow> 'e interaction list \<Rightarrow> IPreferencesState \<times> 'e event list" where
  "interact L st [] = (st, [])"
| "interact L st (i # rest) =
     (case handle L st i of
        (st', evs) \<Rightarrow> (case interact L st' rest of (st'', evs') \<Rightarrow> (st'', evs @ evs')))"

text \<open>The interactions whose handler does not stay inside the component.\<close>

fun actsAtOnce :: "'e interaction \<Rightarrow> bool" where
  "actsAtOnce (SelectedThemeChanged v) = True"
| "actsAtOnce DotComSignIn = True"
| "actsAtOnce EnterpriseSignIn = True"
| "actsAtOnce (Logout a) = True"
| "actsAtOnce i = False"

subsection \<open>Saving\<close>

text \<open>
  The calls of \<open>onSave\<close> return nothing that it reads, so which calls it makes depends
  on the props and the state alone, and on where the first exception stops it. The
  calls are therefore listed first, in the order of the source, and then performed.
  The state is the one \<open>onSave\<close> starts with: no handler runs in between.

  \<open>throws c\<close> is the error that the call \<open>c\<close> raises into \<open>onSave\<close> (it throws, or
  the promise that \<open>onSave\<close> awaits is rejected), and \<open>None\<close> when nothing reaches
  \<open>onSave\<close>. No call occurs twice in one save, so a function of the call describes
  every behaviour of the collaborators.
\<close>

type_synonym 'e faults = "call \<Rightarrow> 'e option"

text \<open>
  What a collaborator does when it is called: it returns (and its promise, if it gives
  one, is fulfilled), it throws, or it returns a promise that is rejected.
\<close>

datatype 'e conduct = Returns | Throws 'e | Rejects 'e

text \<open>
  The calls that are made with \<open>await\<close>. In \<open>onSave\<close> these are all but
  \<open>refreshAuthor\<close> (line 500) and \<open>setRepositoryIndicatorsEnabled\<close> (line 521); the
  handlers outside \<open>onSave\<close> await nothing.
\<close>

fun awaited :: "call \<Rightarrow> bool" where
  "awaited (SetGlobalConfigValue k v) = True"
| "awaited (RemoveGlobalConfigValue k) = True"
| "awaited (SetDefaultBranch b) = True"
| "awaited (RefreshAuthor r) = False"
| "awaited (SetRepositoryIndicatorsEnabled v) = False"
| "awaited (SetStatsOptOut v w) = True"
| "awaited (SetConfirmRepoRemovalSetting v) = True"
| "awaited (SetConfirmForcePushSetting v) = True"
| "awaited (SetExternalEditor v) = True"
| "awaited (SetShell v) = True"
| "awaited (SetConfirmDiscardChangesSetting v) = True"
| "awaited (SetUncommittedChangesStrategySetting v) = True"
| "awaited (SetSelectedTheme t) = False"
| "awaited (RemoveAccount a) = False"
| "awaited ShowDotComSignInDialog = False"
| "awaited ShowEnterpriseSignInDialog = False"

text \<open>
  What reaches the caller: an exception always does, a rejected promise only when the
  call is awaited. A promise that is rejected and not awaited is lost to \<open>onSave\<close>,
  which goes on as if the call had succeeded.
\<close>

definition raisedInto :: "(call \<Rightarrow> 'e conduct) \<Rightarrow> 'e faults" where
  "raisedInto conduct c =
     (case conduct c of
        Returns \<Rightarrow> None
      | Throws e \<Rightarrow> Some e
      | Rejects e \<Rightarrow> if awaited c then Some e else None)"

text \<open>Performing calls in order: the first one that throws ends the sequence.\<close>

fun perform :: "'e faults \<Rightarrow> call list \<Rightarrow> call list \<times> 'e option" where
  "perform throws [] = ([], None)"
| "perform throws (c # cs) =
     (case throws c of
        Some e \<Rightarrow> ([c], Some e)
      | None \<Rightarrow> (case perform throws cs of (issued, r) \<Rightarrow> (c # issued, r)))"

text \<open>Lines 487 to 501: committer name and email, then \<open>refreshAuthor\<close>.\<close>

definition saveCommitter :: "IPreferencesProps \<Rightarrow> IPreferencesState \<Rightarrow> call list" where
  "saveCommitter props st =
     (let nameChanged = (Some (committerName st) \<noteq> initialCommitterName st);
          emailChanged = (Some (committerEmail st) \<noteq> initialCommitterEmail st);
          shouldRefreshAuthor = (nameChanged \<or> emailChanged)
      in (if nameChanged then [SetGlobalConfigValue ''user.name'' (committerName st)] else []) @
         (if emailChanged then [SetGlobalConfigValue ''user.email'' (committerEmail st)] else []) @
         (case repository props of
            Some r \<Rightarrow> if shouldRefreshAuthor then [RefreshAuthor r] else []
          | None \<Rightarrow> []))"

text \<open>Lines 510 to 515.\<close>

definition saveDefaultBranch :: "IPreferencesState \<Rightarrow> call list" where
  "saveDefaultBranch st =
     (if length (defaultBranch st) > 0 \<and> Some (defaultBranch st) \<noteq> initialDefaultBranch st
      then [SetDefaultBranch (defaultBranch st)] else [])"

text \<open>Lines 517 to 524.\<close>

definition saveRepositoryIndicators :: "IPreferencesProps \<Rightarrow> IPreferencesState \<Rightarrow> call list" where
  "saveRepositoryIndicators props st =
     (if repositoryIndicatorsEnabled_prop props \<noteq> repositoryIndicatorsEnabled st
      then [SetRepositoryIndicatorsEnabled (repositoryIndicatorsEnabled st)] else [])"

text \<open>Lines 526 to 555.\<close>

definition saveMergeTool :: "IPreferencesState \<Rightarrow> call list" where
  "saveMergeTool st =
     (if useCustomMergeTool st \<noteq> initialUseCustomMergeTool st \<or>
         Some (mergeToolName st) \<noteq> initialMergeToolName st \<or>
         Some (mergeToolCommand st) \<noteq> initialMergeToolCommand st
      then
        (if Some (mergeToolName st) \<noteq> initialMergeToolName st \<and> mergeToolName st \<noteq> ''''
         then [SetGlobalConfigValue ''merge.tool'' (mergeToolName st)] else []) @
        (if Some (mergeToolCommand st) \<noteq> initialMergeToolCommand st \<and> mergeToolCommand st \<noteq> ''''
         then [SetGlobalConfigValue (''mergetool.'' @ mergeToolName st @ ''.cmd'')
                 (mergeToolCommand st)]
         else []) @
        (if useCustomMergeTool st = False
         then [RemoveGlobalConfigValue ''merge.tool'',
               RemoveGlobalConfigValue (''mergetool'' @ toStr (initialMergeToolName st) @ ''.cmd'')]
         else [])
      else [])"

text \<open>The body of the \<open>try\<close> block, lines 486 to 555.\<close>

definition tryBlockCalls :: "IPreferencesProps \<Rightarrow> IPreferencesState \<Rightarrow> call list" where
  "tryBlockCalls props st =
     saveCommitter props st @ saveDefaultBranch st @
     saveRepositoryIndicators props st @ saveMergeTool st"

text \<open>The calls after the \<open>try\<close> statement, lines 574 to 598.\<close>

definition dispatcherCalls :: "IPreferencesState \<Rightarrow> call list" where
  "dispatcherCalls st =
     [SetStatsOptOut (optOutOfUsageTracking st) False,
      SetConfirmRepoRemovalSetting (confirmRepositoryRemoval st),
      SetConfirmForcePushSetting (confirmForcePush st)] @
     (if truthy (selectedExternalEditor st)
      then [SetExternalEditor (toStr (selectedExternalEditor st))] else []) @
     [SetShell (selectedShell st),
      SetConfirmDiscardChangesSetting (confirmDiscardChanges st),
      SetUncommittedChangesStrategySetting (uncommittedChangesStrategy st)]"

text \<open>
  The \<open>catch\<close> block, lines 556 to 572: the state it leaves and the events it causes.
\<close>

definition catchBlock ::
  "'e lib \<Rightarrow> IPreferencesState \<Rightarrow> 'e \<Rightarrow> IPreferencesState \<times> 'e event list" where
  "catchBlock L st e =
     (case (if isConfigFileLockError L e then parseConfigLockFilePathFromError L e else None) of
        Some lockFilePath \<Rightarrow>
          (st\<lparr>existingLockFilePath := Some lockFilePath, selectedIndex := Git\<rparr>, [])
      | None \<Rightarrow> (st, [OnDismissed, PostError e]))"

text \<open>
  What one invocation of \<open>onSave\<close> leaves: the state, the events in order, and the
  error its promise is rejected with when an exception leaves the function.
\<close>

record 'e outcome =
  state_after :: IPreferencesState
  trace :: "'e event list"
  rejected :: "'e option"

definition onSave ::
  "'e lib \<Rightarrow> 'e faults \<Rightarrow> IPreferencesProps \<Rightarrow> IPreferencesState \<Rightarrow> 'e outcome" where
  "onSave L throws props st =
     (case perform throws (tryBlockCalls props st) of
        (issued, Some e) \<Rightarrow>
          (case catchBlock L st e of
             (st', evs) \<Rightarrow>
               \<lparr> state_after = st', trace = map Issue issued @ evs, rejected = None \<rparr>)
      | (issued, None) \<Rightarrow>
          (case perform throws (dispatcherCalls st) of
             (issued', Some e) \<Rightarrow>
               \<lparr> state_after = st, trace = map Issue (issued @ issued'), rejected = Some e \<rparr>
           | (issued', None) \<Rightarrow>
               \<lparr> state_after = st, trace = map Issue (issued @ issued') @ [OnDismissed],
                 rejected = None \<rparr>))"

subsection \<open>Vocabulary of the properties\<close>

text \<open>All the calls a save makes when nothing fails.\<close>

definition saveCalls :: "IPreferencesProps \<Rightarrow> IPreferencesState \<Rightarrow> call list" where
  "saveCalls props st = tryBlockCalls props st @ dispatcherCalls st"

text \<open>The first call of a list that fails, with its error.\<close>

fun firstFailure :: "'e faults \<Rightarrow> call list \<Rightarrow> (call \<times> 'e) option" where
  "firstFailure throws [] = None"
| "firstFailure throws (c # cs) =
     (case throws c of Some e \<Rightarrow> Some (c, e) | None \<Rightarrow> firstFailure throws cs)"

text \<open>The writes to the configuration store (git config and the default branch).\<close>

fun isConfigStoreWrite :: "call \<Rightarrow> bool" where
  "isConfigStoreWrite (SetGlobalConfigValue k v) = True"
| "isConfigStoreWrite (RemoveGlobalConfigValue k) = True"
| "isConfigStoreWrite (SetDefaultBranch b) = True"
| "isConfigStoreWrite c = False"

text \<open>The calls of a trace, in order.\<close>

fun issuedCalls :: "'e event list \<Rightarrow> call list" where
  "issuedCalls [] = []"
| "issuedCalls (Issue c # evs) = c # issuedCalls evs"
| "issuedCalls (ev # evs) = issuedCalls evs"

text \<open>The place of a call in the text of \<open>onSave\<close>.\<close>

fun place :: "call \<Rightarrow> nat" where
  "place (SetGlobalConfigValue k v) =
     (if k = ''user.name'' then 0 else if k = ''user.email'' then 1
      else if k = ''merge.tool'' then 5 else 6)"
| "place (RefreshAuthor r) = 2"
| "place (SetDefaultBranch b) = 3"
| "place (SetRepositoryIndicatorsEnabled v) = 4"
| "place (RemoveGlobalConfigValue k) = (if k = ''merge.tool'' then 7 else 8)"
| "place (SetStatsOptOut v w) = 9"
| "place (SetConfirmRepoRemovalSetting v) = 10"
| "place (SetConfirmForcePushSetting v) = 11"
| "place (SetExternalEditor v) = 12"
| "place (SetShell v) = 13"
| "place (SetConfirmDiscardChangesSetting v) = 14"
| "place (SetUncommittedChangesStrategySetting v) = 15"
| "place c = 16"

text \<open>The errors of a trace that were handed to \<open>dispatcher.postError\<close>, in order.\<close>

fun reportedErrors :: "'e event list \<Rightarrow> 'e list" where
  "reportedErrors [] = []"
| "reportedErrors (PostError e # evs) = e # reportedErrors evs"
| "reportedErrors (ev # evs) = reportedErrors evs"

text \<open>The state of the dialog once it is constructed and \<open>componentWillMount\<close> has run.\<close>

definition loaded :: "'e lib \<Rightarrow> sources \<Rightarrow> IPreferencesProps \<Rightarrow> IPreferencesState" where
  "loaded L W props = componentWillMount L W props (constructor_Preferences L props)"

subsection \<open>Concrete inputs\<close>

text \<open>
  A small world to run the model in: two kinds of error, a library over them, one set
  of props, two configurations of the store (one with a committer identity, one
  without), and five behaviours of the collaborators.
\<close>

datatype sample_error = LockError string | Failure string

fun sample_isLock :: "sample_error \<Rightarrow> bool" where
  "sample_isLock (LockError p) = True"
| "sample_isLock (Failure m) = False"

fun sample_lockPath :: "sample_error \<Rightarrow> string option" where
  "sample_lockPath (LockError p) = (if p = '''' then None else Some p)"
| "sample_lockPath (Failure m) = None"

fun sample_email :: "Account \<Rightarrow> string" where
  "sample_email a = login a @ ''@users.noreply.github.com''"

fun sample_nameIsValid :: "string \<Rightarrow> bool" where
  "sample_nameIsValid s = (s \<noteq> ''.'')"

definition sample_lib :: "sample_error lib" where
  "sample_lib =
     \<lparr> isConfigFileLockError = sample_isLock,
       parseConfigLockFilePathFromError = sample_lockPath,
       lookupPreferredEmail = sample_email,
       gitAuthorNameIsValid = sample_nameIsValid,
       InvalidGitAuthorNameMessage = ''Name is invalid'',
       defaultUncommittedChangesStrategy = ''AskForConfirmation'' \<rparr>"

definition sample_props :: IPreferencesProps where
  "sample_props =
     \<lparr> dotComAccount = Some \<lparr> login = ''octocat'' \<rparr>,
       enterpriseAccount = None,
       repository = Some ''desktop'',
       optOutOfUsageTracking_prop = False,
       initialSelectedTab = None,
       confirmRepositoryRemoval_prop = True,
       confirmDiscardChanges_prop = True,
       confirmForcePush_prop = True,
       uncommittedChangesStrategy_prop = ''AskForConfirmation'',
       selectedExternalEditor_prop = Some ''Atom'',
       selectedShell_prop = ''bash'',
       selectedTheme = ''light'',
       repositoryIndicatorsEnabled_prop = True \<rparr>"

definition with_identity :: sources where
  "with_identity =
     \<lparr> getGlobalConfigValue =
         map_of [(''user.name'', ''Mona''), (''user.email'', ''mona@example.com''),
                 (''merge.tool'', ''meld''), (''mergetool.meld.cmd'', ''meld $LOCAL $REMOTE'')],
       getDefaultBranch = ''main'',
       getAvailableEditors = [(''Atom'', ''/usr/bin/atom'')],
       getAvailableShells = [(''bash'', ''/bin/bash'')] \<rparr>"

definition without_identity :: sources where
  "without_identity =
     \<lparr> getGlobalConfigValue =
         map_of [(''merge.tool'', ''meld''), (''mergetool.meld.cmd'', ''meld $LOCAL $REMOTE'')],
       getDefaultBranch = ''main'',
       getAvailableEditors = [(''Atom'', ''/usr/bin/atom'')],
       getAvailableShells = [(''bash'', ''/bin/bash'')] \<rparr>"

definition no_account :: IPreferencesProps where
  "no_account = sample_props \<lparr> dotComAccount := None \<rparr>"

fun no_faults :: "sample_error faults" where
  "no_faults c = None"

fun lock_on_email :: "sample_error faults" where
  "lock_on_email (SetGlobalConfigValue k v) =
     (if k = ''user.email'' then Some (LockError ''/home/mona/.gitconfig.lock'') else None)"
| "lock_on_email c = None"

fun email_write_rejects :: "call \<Rightarrow> sample_error conduct" where
  "email_write_rejects (SetGlobalConfigValue k v) =
     (if k = ''user.email'' then Rejects (Failure ''disk full'') else Returns)"
| "email_write_rejects c = Returns"

fun author_refresh_rejects :: "call \<Rightarrow> sample_error conduct" where
  "author_refresh_rejects (RefreshAuthor r) = Rejects (Failure ''repository is gone'')"
| "author_refresh_rejects c = Returns"

fun failure_on_stats :: "sample_error faults" where
  "failure_on_stats (SetStatsOptOut v w) = Some (Failure ''store unavailable'')"
| "failure_on_stats c = None"

text \<open>The dialog opened on a store with a committer identity, and drafts made in it.\<close>

definition opened :: IPreferencesState where
  "opened = loaded sample_lib with_identity sample_props"

definition branch_cleared :: IPreferencesState where
  "branch_cleared = fst (interact sample_lib opened [DefaultBranchChanged ''''])"

definition identity_edited :: IPreferencesState where
  "identity_edited =
     fst (interact sample_lib opened
            [CommitterNameChanged ''Mona Lisa'', CommitterEmailChanged ''lisa@example.com'',
             DefaultBranchChanged ''trunk''])"

definition merge_tool_edited :: IPreferencesState where
  "merge_tool_edited =
     fst (interact sample_lib opened
            [MergeToolChanged ''kdiff3'', MergeToolCommandChanged ''kdiff3 $LOCAL $REMOTE''])"

definition merge_tool_disabled :: IPreferencesState where
  "merge_tool_disabled = fst (interact sample_lib opened [UseCustomMergeToolChanged False])"

text \<open>The dialog opened on a store without a committer identity.\<close>

definition opened_without_identity :: IPreferencesState where
  "opened_without_identity = loaded sample_lib without_identity sample_props"

section \<open>Properties\<close>

subsection \<open>Performing a list of calls\<close>

lemma perform_issued_subset: "set (fst (perform throws cs)) \<subseteq> set cs"
  by (induction cs) (auto split: option.splits prod.splits)

lemma perform_all_succeed:
  "\<forall>c\<in>set cs. throws c = None \<Longrightarrow> perform throws cs = (cs, None)"
  by (induction cs) auto

lemma perform_prefix: "\<exists>rest. cs = fst (perform throws cs) @ rest"
  by (induction cs) (auto split: option.splits prod.splits)

lemma perform_append:
  "perform throws (xs @ ys) =
     (case perform throws xs of
        (issued, Some e) \<Rightarrow> (issued, Some e)
      | (issued, None) \<Rightarrow> (case perform throws ys of (issued', r) \<Rightarrow> (issued @ issued', r)))"
  by (induction xs) (auto split: option.splits prod.splits)

lemma perform_failing_is_last:
  "i < length (fst (perform throws cs)) \<Longrightarrow> throws (fst (perform throws cs) ! i) \<noteq> None \<Longrightarrow>
     Suc i = length (fst (perform throws cs))"
proof (induction cs arbitrary: i)
  case Nil
  then show ?case by simp
next
  case (Cons x xs)
  show ?case
  proof (cases "throws x")
    case None
    with Cons.prems show ?thesis
      using Cons.IH[of "i - 1"]
      by (cases i) (auto split: prod.splits)
  next
    case (Some e)
    with Cons.prems show ?thesis by simp
  qed
qed

lemma firstFailure_None_iff:
  "firstFailure throws cs = None \<longleftrightarrow> (\<forall>c\<in>set cs. throws c = None)"
  by (induction cs) (auto split: option.splits)

lemma firstFailure_append:
  "firstFailure throws (xs @ ys) =
     (case firstFailure throws xs of Some r \<Rightarrow> Some r | None \<Rightarrow> firstFailure throws ys)"
  by (induction xs) (auto split: option.splits)

lemma firstFailure_SomeD:
  "firstFailure throws cs = Some (c, e) \<Longrightarrow>
     \<exists>pre post. cs = pre @ c # post \<and> (\<forall>x\<in>set pre. throws x = None) \<and> throws c = Some e
       \<and> perform throws cs = (pre @ [c], Some e)"
proof (induction cs)
  case Nil
  then show ?case by simp
next
  case (Cons x xs)
  show ?case
  proof (cases "throws x")
    case None
    with Cons.prems have "firstFailure throws xs = Some (c, e)" by simp
    from Cons.IH[OF this] obtain pre post where
      "xs = pre @ c # post" "\<forall>y\<in>set pre. throws y = None" "throws c = Some e"
      "perform throws xs = (pre @ [c], Some e)" by blast
    with None have "x # xs = (x # pre) @ c # post \<and> (\<forall>y\<in>set (x # pre). throws y = None) \<and>
        throws c = Some e \<and> perform throws (x # xs) = ((x # pre) @ [c], Some e)"
      by simp
    then show ?thesis by blast
  next
    case (Some e')
    with Cons.prems have "x = c" "e' = e" by simp_all
    with Some have "x # xs = [] @ c # xs \<and> (\<forall>y\<in>set []. throws y = None) \<and>
        throws c = Some e \<and> perform throws (x # xs) = ([] @ [c], Some e)"
      by simp
    then show ?thesis by blast
  qed
qed

subsection \<open>Traces\<close>

lemma issuedCalls_append: "issuedCalls (xs @ ys) = issuedCalls xs @ issuedCalls ys"
  by (induction xs rule: issuedCalls.induct) auto

lemma issuedCalls_map_Issue: "issuedCalls (map Issue cs) = cs"
  by (induction cs) auto

lemma Issue_in_trace_iff: "Issue c \<in> set evs \<longleftrightarrow> c \<in> set (issuedCalls evs)"
  by (induction evs rule: issuedCalls.induct) auto

lemma reportedErrors_append: "reportedErrors (xs @ ys) = reportedErrors xs @ reportedErrors ys"
  by (induction xs rule: reportedErrors.induct) auto

lemma reportedErrors_map_Issue: "reportedErrors (map Issue cs) = []"
  by (induction cs) auto

lemma count_OnDismissed_map_Issue: "count_list (map Issue cs) OnDismissed = 0"
  by (induction cs) auto

subsection \<open>The calls of a save, in the order of the source\<close>

lemma place_saveCommitter:
  "sorted_wrt (\<lambda>a b. place a < place b) (saveCommitter props st) \<and>
   (\<forall>c\<in>set (saveCommitter props st). place c \<le> 2)"
  by (simp add: saveCommitter_def Let_def split: option.splits)

lemma place_saveDefaultBranch:
  "sorted_wrt (\<lambda>a b. place a < place b) (saveDefaultBranch st) \<and>
   (\<forall>c\<in>set (saveDefaultBranch st). place c = 3)"
  by (simp add: saveDefaultBranch_def)

lemma place_saveRepositoryIndicators:
  "sorted_wrt (\<lambda>a b. place a < place b) (saveRepositoryIndicators props st) \<and>
   (\<forall>c\<in>set (saveRepositoryIndicators props st). place c = 4)"
  by (simp add: saveRepositoryIndicators_def)

lemma place_saveMergeTool:
  "sorted_wrt (\<lambda>a b. place a < place b) (saveMergeTool st) \<and>
   (\<forall>c\<in>set (saveMergeTool st). 5 \<le> place c \<and> place c \<le> 8)"
  by (simp add: saveMergeTool_def)

lemma place_dispatcherCalls:
  "sorted_wrt (\<lambda>a b. place a < place b) (dispatcherCalls st) \<and>
   (\<forall>c\<in>set (dispatcherCalls st). 9 \<le> place c)"
  by (simp add: dispatcherCalls_def)

lemma sorted_saveCalls: "sorted_wrt (\<lambda>a b. place a < place b) (saveCalls props st)"
  using place_saveCommitter[of props st] place_saveDefaultBranch[of st]
    place_saveRepositoryIndicators[of props st] place_saveMergeTool[of st]
    place_dispatcherCalls[of st]
  by (fastforce simp: saveCalls_def tryBlockCalls_def sorted_wrt_append)

lemma sorted_wrt_place_distinct:
  "sorted_wrt (\<lambda>a b. place a < place b) cs \<Longrightarrow> distinct cs"
  by (induction cs) auto

lemma dispatcherCalls_no_config_write:
  "c \<in> set (dispatcherCalls st) \<Longrightarrow> \<not> isConfigStoreWrite c"
  by (auto simp: dispatcherCalls_def split: if_splits)

lemma dispatcherCalls_not_in_tryBlock:
  "c \<in> set (dispatcherCalls st) \<Longrightarrow> c \<notin> set (tryBlockCalls props st)"
  using place_saveCommitter[of props st] place_saveDefaultBranch[of st]
    place_saveRepositoryIndicators[of props st] place_saveMergeTool[of st]
    place_dispatcherCalls[of st]
  by (fastforce simp: tryBlockCalls_def)

subsection \<open>The shape of a save\<close>

text \<open>The calls a save issues are what performing its list of calls issues.\<close>

lemma catchBlock_no_calls: "catchBlock L st e = (st', evs) \<Longrightarrow> issuedCalls evs = []"
  by (auto simp: catchBlock_def split: option.splits if_splits)

lemma issuedCalls_onSave:
  "issuedCalls (trace (onSave L throws props st)) = fst (perform throws (saveCalls props st))"
  by (auto simp: onSave_def saveCalls_def perform_append issuedCalls_append
      issuedCalls_map_Issue dest: catchBlock_no_calls split: prod.splits option.splits)

lemma trace_onSave_shape:
  "\<exists>tail. trace (onSave L throws props st) =
            map Issue (issuedCalls (trace (onSave L throws props st))) @ tail \<and>
          issuedCalls tail = []"
  by (auto simp: onSave_def issuedCalls_append issuedCalls_map_Issue
      dest: catchBlock_no_calls split: prod.splits option.splits)

lemma issued_in_saveCalls:
  "Issue c \<in> set (trace (onSave L throws props st)) \<Longrightarrow> c \<in> set (saveCalls props st)"
  using perform_issued_subset[of throws "saveCalls props st"]
  by (auto simp: Issue_in_trace_iff issuedCalls_onSave)

lemma onSave_no_failure:
  assumes "\<forall>c\<in>set (saveCalls props st). throws c = None"
  shows "onSave L throws props st =
           \<lparr> state_after = st, trace = map Issue (saveCalls props st) @ [OnDismissed],
             rejected = None \<rparr>"
proof -
  from assms have "perform throws (tryBlockCalls props st) = (tryBlockCalls props st, None)"
    and "perform throws (dispatcherCalls st) = (dispatcherCalls st, None)"
    by (simp_all add: saveCalls_def perform_all_succeed)
  then show ?thesis
    by (simp add: onSave_def saveCalls_def)
qed

lemma onSave_guarded_failure:
  assumes "firstFailure throws (tryBlockCalls props st) = Some (c, e)"
  shows "\<exists>pre. (\<forall>x\<in>set pre. throws x = None) \<and> throws c = Some e \<and>
           onSave L throws props st =
             \<lparr> state_after = fst (catchBlock L st e),
               trace = map Issue (pre @ [c]) @ snd (catchBlock L st e),
               rejected = None \<rparr>"
proof -
  from firstFailure_SomeD[OF assms] obtain pre post where
    pre: "\<forall>x\<in>set pre. throws x = None" "throws c = Some e"
      "perform throws (tryBlockCalls props st) = (pre @ [c], Some e)"
    by blast
  then have "onSave L throws props st =
      \<lparr> state_after = fst (catchBlock L st e),
        trace = map Issue (pre @ [c]) @ snd (catchBlock L st e), rejected = None \<rparr>"
    by (simp add: onSave_def split: prod.splits)
  with pre show ?thesis by blast
qed

text \<open>
  A failing write to the configuration store, or a failing call of the \<open>try\<close> block,
  is a failure inside the \<open>try\<close> block: the calls after it are none of these.
\<close>

lemma failure_inside_tryBlock:
  assumes "firstFailure throws (saveCalls props st) = Some (c, e)"
    and "isConfigStoreWrite c \<or> c \<in> set (tryBlockCalls props st)"
  shows "firstFailure throws (tryBlockCalls props st) = Some (c, e)"
proof (cases "firstFailure throws (tryBlockCalls props st)")
  case None
  with assms(1) have later: "firstFailure throws (dispatcherCalls st) = Some (c, e)"
    by (simp add: saveCalls_def firstFailure_append)
  from firstFailure_SomeD[OF later] have "c \<in> set (dispatcherCalls st)" by auto
  with assms(2) show ?thesis
    using dispatcherCalls_no_config_write[of c st] dispatcherCalls_not_in_tryBlock[of c st props]
    by blast
next
  case (Some r)
  with assms(1) show ?thesis
    by (simp add: saveCalls_def firstFailure_append)
qed

subsection \<open>Which calls a save lists\<close>

lemma user_name_listed:
  "SetGlobalConfigValue ''user.name'' v \<in> set (saveCalls props st) \<longleftrightarrow>
     v = committerName st \<and> Some v \<noteq> initialCommitterName st"
  by (auto simp: saveCalls_def tryBlockCalls_def dispatcherCalls_def saveCommitter_def
      saveDefaultBranch_def saveRepositoryIndicators_def saveMergeTool_def Let_def
      split: option.splits if_splits)

lemma user_email_listed:
  "SetGlobalConfigValue ''user.email'' v \<in> set (saveCalls props st) \<longleftrightarrow>
     v = committerEmail st \<and> Some v \<noteq> initialCommitterEmail st"
  by (auto simp: saveCalls_def tryBlockCalls_def dispatcherCalls_def saveCommitter_def
      saveDefaultBranch_def saveRepositoryIndicators_def saveMergeTool_def Let_def
      split: option.splits if_splits)

lemma default_branch_listed:
  "SetDefaultBranch b \<in> set (saveCalls props st) \<longleftrightarrow>
     b = defaultBranch st \<and> b \<noteq> '''' \<and> Some b \<noteq> initialDefaultBranch st"
  by (auto simp: saveCalls_def tryBlockCalls_def dispatcherCalls_def saveCommitter_def
      saveDefaultBranch_def saveRepositoryIndicators_def saveMergeTool_def Let_def
      split: option.splits if_splits)

lemma repository_indicators_listed:
  "SetRepositoryIndicatorsEnabled x \<in> set (saveCalls props st) \<longleftrightarrow>
     x = repositoryIndicatorsEnabled st \<and> x \<noteq> repositoryIndicatorsEnabled_prop props"
  by (auto simp: saveCalls_def tryBlockCalls_def dispatcherCalls_def saveCommitter_def
      saveDefaultBranch_def saveRepositoryIndicators_def saveMergeTool_def Let_def
      split: option.splits if_splits)

lemma merge_tool_listed:
  "SetGlobalConfigValue ''merge.tool'' v \<in> set (saveCalls props st) \<longleftrightarrow>
     v = mergeToolName st \<and> v \<noteq> '''' \<and> Some v \<noteq> initialMergeToolName st"
  by (auto simp: saveCalls_def tryBlockCalls_def dispatcherCalls_def saveCommitter_def
      saveDefaultBranch_def saveRepositoryIndicators_def saveMergeTool_def Let_def
      split: option.splits if_splits)

lemma merge_tool_command_listed:
  "SetGlobalConfigValue (''mergetool.'' @ n @ ''.cmd'') v \<in> set (saveCalls props st) \<longleftrightarrow>
     n = mergeToolName st \<and> v = mergeToolCommand st \<and> v \<noteq> '''' \<and>
     Some v \<noteq> initialMergeToolCommand st"
  by (auto simp: saveCalls_def tryBlockCalls_def dispatcherCalls_def saveCommitter_def
      saveDefaultBranch_def saveRepositoryIndicators_def saveMergeTool_def Let_def
      split: option.splits if_splits)

subsection \<open>What reaches a save\<close>

lemma raisedInto_SomeD:
  "raisedInto conduct c = Some e \<Longrightarrow>
     conduct c = Throws e \<or> conduct c = Rejects e \<and> awaited c"
  by (auto simp: raisedInto_def split: conduct.splits if_splits)

lemma raisedInto_reaches:
  "(\<exists>e. conduct c = Throws e) \<or> (\<exists>e. conduct c = Rejects e) \<and> awaited c \<Longrightarrow>
     raisedInto conduct c \<noteq> None"
  by (auto simp: raisedInto_def)

text \<open>Inside the \<open>try\<close> block the awaited calls are the writes to the configuration store.\<close>

lemma awaited_in_tryBlock:
  "c \<in> set (tryBlockCalls props st) \<Longrightarrow> awaited c = isConfigStoreWrite c"
  by (auto simp: tryBlockCalls_def saveCommitter_def saveDefaultBranch_def
      saveRepositoryIndicators_def saveMergeTool_def Let_def split: option.splits if_splits)

subsection \<open>Unfolding the model on the concrete inputs\<close>

lemmas js_defs = truthy_def orEmpty_def orElse_def toStr_def

lemmas load_defs = loaded_def componentWillMount_def constructor_Preferences_def
  loadMergeToolCommand_def prefillCommitter_def Let_def

lemmas handler_defs =
  onRepositoryIndicatorsEnabledChanged_def onLockFileDeleted_def onLockFileDeleteError_def
  onOptOutofReportingChanged_def onConfirmRepositoryRemovalChanged_def
  onConfirmDiscardChangesChanged_def onConfirmForcePushChanged_def
  onUncommittedChangesStrategyChanged_def onCommitterNameChanged_def onMergeToolChanged_def
  onUseCustomMergeToolChanged_def onMergeToolCommandChanged_def onCommitterEmailChanged_def
  onDefaultBranchChanged_def onSelectedEditorChanged_def onSelectedShellChanged_def
  onSelectedThemeChanged_def onTabClicked_def onDotComSignIn_def onEnterpriseSignIn_def
  onLogout_def

lemmas save_defs = saveCalls_def tryBlockCalls_def dispatcherCalls_def saveCommitter_def
  saveDefaultBranch_def saveRepositoryIndicators_def saveMergeTool_def

lemmas sample_defs = sample_lib_def sample_props_def with_identity_def without_identity_def
  no_account_def

text \<open>The concrete states, computed once.\<close>

lemma opened_eq:
  "opened =
     \<lparr> selectedIndex = Accounts, committerName = ''Mona'',
       committerEmail = ''mona@example.com'', defaultBranch = ''main'',
       mergeToolName = ''meld'', mergeToolCommand = ''meld $LOCAL $REMOTE'',
       initialCommitterName = Some ''Mona'',
       initialCommitterEmail = Some ''mona@example.com'',
       initialDefaultBranch = Some ''main'',
       initialMergeToolName = Some ''meld'',
       initialMergeToolCommand = Some ''meld $LOCAL $REMOTE'',
       initialUseCustomMergeTool = True, disallowedCharactersMessage = None,
       optOutOfUsageTracking = False, confirmRepositoryRemoval = True,
       confirmDiscardChanges = True, confirmForcePush = True,
       useCustomMergeTool = True,
       uncommittedChangesStrategy = ''AskForConfirmation'',
       availableEditors = [''Atom''], selectedExternalEditor = Some ''Atom'',
       availableShells = [''bash''], selectedShell = ''bash'',
       existingLockFilePath = None, repositoryIndicatorsEnabled = True \<rparr>"
  by (simp add: opened_def load_defs sample_defs js_defs)

lemma branch_cleared_eq: "branch_cleared = opened \<lparr> defaultBranch := '''' \<rparr>"
  by (simp add: branch_cleared_def handler_defs)

lemma identity_edited_eq:
  "identity_edited =
     opened \<lparr> committerName := ''Mona Lisa'', committerEmail := ''lisa@example.com'',
              defaultBranch := ''trunk'' \<rparr>"
  by (simp add: identity_edited_def handler_defs opened_eq sample_defs)

lemma merge_tool_edited_eq:
  "merge_tool_edited =
     opened \<lparr> mergeToolName := ''kdiff3'', mergeToolCommand := ''kdiff3 $LOCAL $REMOTE'' \<rparr>"
  by (simp add: merge_tool_edited_def handler_defs)

lemma merge_tool_disabled_eq: "merge_tool_disabled = opened \<lparr> useCustomMergeTool := False \<rparr>"
  by (simp add: merge_tool_disabled_def handler_defs)

lemma saveCalls_identity_edited:
  "saveCalls sample_props identity_edited =
     [SetGlobalConfigValue ''user.name'' ''Mona Lisa'',
      SetGlobalConfigValue ''user.email'' ''lisa@example.com'',
      RefreshAuthor ''desktop'', SetDefaultBranch ''trunk'',
      SetStatsOptOut False False, SetConfirmRepoRemovalSetting True,
      SetConfirmForcePushSetting True, SetExternalEditor ''Atom'', SetShell ''bash'',
      SetConfirmDiscardChangesSetting True,
      SetUncommittedChangesStrategySetting ''AskForConfirmation'']"
  by (simp add: identity_edited_eq opened_eq save_defs sample_defs js_defs)

lemma tryBlockCalls_identity_edited:
  "tryBlockCalls sample_props identity_edited =
     [SetGlobalConfigValue ''user.name'' ''Mona Lisa'',
      SetGlobalConfigValue ''user.email'' ''lisa@example.com'',
      RefreshAuthor ''desktop'', SetDefaultBranch ''trunk'']"
  by (simp add: identity_edited_eq opened_eq save_defs sample_defs js_defs)

lemma saveCalls_merge_tool_edited:
  "saveCalls sample_props merge_tool_edited =
     [SetGlobalConfigValue ''merge.tool'' ''kdiff3'',
      SetGlobalConfigValue ''mergetool.kdiff3.cmd'' ''kdiff3 $LOCAL $REMOTE'',
      SetStatsOptOut False False, SetConfirmRepoRemovalSetting True,
      SetConfirmForcePushSetting True, SetExternalEditor ''Atom'', SetShell ''bash'',
      SetConfirmDiscardChangesSetting True,
      SetUncommittedChangesStrategySetting ''AskForConfirmation'']"
  by (simp add: merge_tool_edited_eq opened_eq save_defs sample_defs js_defs)

section \<open>The claims\<close>

text \<open>
  C3. On save, an empty default-branch draft is never written: \<open>setDefaultBranch\<close> is
  called only with the drafted default branch, and only when that draft is not empty
  and differs from the initial value captured at load. This holds whatever the
  collaborators do, so with an empty draft no save calls \<open>setDefaultBranch\<close> and the
  stored value stays.
\<close>

theorem empty_default_branch_never_written:
  "Issue (SetDefaultBranch b) \<in> set (trace (onSave L throws props st)) \<Longrightarrow>
     b = defaultBranch st \<and> defaultBranch st \<noteq> '''' \<and>
     Some (defaultBranch st) \<noteq> initialDefaultBranch st"
  using issued_in_saveCalls[of "SetDefaultBranch b" L throws props st]
  by (auto simp: default_branch_listed)

theorem empty_default_branch_never_written_witness:
  "Issue (SetDefaultBranch ''trunk'')
     \<in> set (trace (onSave sample_lib no_faults sample_props identity_edited)) \<and>
   ''trunk'' = defaultBranch identity_edited \<and> defaultBranch identity_edited \<noteq> '''' \<and>
   Some (defaultBranch identity_edited) \<noteq> initialDefaultBranch identity_edited"
proof -
  have "\<forall>c\<in>set (saveCalls sample_props identity_edited). no_faults c = None"
    by simp
  then have "Issue (SetDefaultBranch ''trunk'')
      \<in> set (trace (onSave sample_lib no_faults sample_props identity_edited))"
    by (simp add: onSave_no_failure saveCalls_identity_edited)
  then show ?thesis
    using empty_default_branch_never_written
      [of "''trunk''" sample_lib no_faults sample_props identity_edited]
    by simp
qed

text \<open>
  C9. On save, the key \<open>merge.tool\<close> is written only with the drafted merge-tool name,
  and only when that name is not empty and differs from its initial value; a key
  \<open>mergetool.<name>.cmd\<close> is written only for the drafted name and with the drafted
  command, and only when that command is not empty and differs from its initial value.
  So neither an empty name nor an empty command is ever written.
\<close>

theorem merge_tool_written_only_nonempty_and_changed:
  "(Issue (SetGlobalConfigValue ''merge.tool'' v) \<in> set (trace (onSave L throws props st)) \<longrightarrow>
      v = mergeToolName st \<and> v \<noteq> '''' \<and> Some v \<noteq> initialMergeToolName st) \<and>
   (Issue (SetGlobalConfigValue (''mergetool.'' @ n @ ''.cmd'') w)
        \<in> set (trace (onSave L throws props st)) \<longrightarrow>
      n = mergeToolName st \<and> w = mergeToolCommand st \<and> w \<noteq> '''' \<and>
      Some w \<noteq> initialMergeToolCommand st)"
proof (rule conjI; rule impI)
  assume "Issue (SetGlobalConfigValue ''merge.tool'' v) \<in> set (trace (onSave L throws props st))"
  from issued_in_saveCalls[OF this]
  show "v = mergeToolName st \<and> v \<noteq> '''' \<and> Some v \<noteq> initialMergeToolName st"
    unfolding merge_tool_listed .
next
  assume "Issue (SetGlobalConfigValue (''mergetool.'' @ n @ ''.cmd'') w)
            \<in> set (trace (onSave L throws props st))"
  from issued_in_saveCalls[OF this]
  show "n = mergeToolName st \<and> w = mergeToolCommand st \<and> w \<noteq> '''' \<and>
        Some w \<noteq> initialMergeToolCommand st"
    unfolding merge_tool_command_listed .
qed

theorem merge_tool_written_only_nonempty_and_changed_witness:
  "Issue (SetGlobalConfigValue ''merge.tool'' ''kdiff3'')
     \<in> set (trace (onSave sample_lib no_faults sample_props merge_tool_edited)) \<and>
   Issue (SetGlobalConfigValue (''mergetool.'' @ ''kdiff3'' @ ''.cmd'') ''kdiff3 $LOCAL $REMOTE'')
     \<in> set (trace (onSave sample_lib no_faults sample_props merge_tool_edited)) \<and>
   ''kdiff3'' = mergeToolName merge_tool_edited \<and>
   Some ''kdiff3'' \<noteq> initialMergeToolName merge_tool_edited \<and>
   ''kdiff3 $LOCAL $REMOTE'' = mergeToolCommand merge_tool_edited \<and>
   Some ''kdiff3 $LOCAL $REMOTE'' \<noteq> initialMergeToolCommand merge_tool_edited"
proof -
  have "\<forall>c\<in>set (saveCalls sample_props merge_tool_edited). no_faults c = None"
    by simp
  then have "Issue (SetGlobalConfigValue ''merge.tool'' ''kdiff3'')
       \<in> set (trace (onSave sample_lib no_faults sample_props merge_tool_edited)) \<and>
     Issue (SetGlobalConfigValue (''mergetool.'' @ ''kdiff3'' @ ''.cmd'') ''kdiff3 $LOCAL $REMOTE'')
       \<in> set (trace (onSave sample_lib no_faults sample_props merge_tool_edited))"
    by (simp add: onSave_no_failure saveCalls_merge_tool_edited)
  then show ?thesis
    using merge_tool_written_only_nonempty_and_changed
      [of "''kdiff3''" sample_lib no_faults sample_props merge_tool_edited "''kdiff3''"
          "''kdiff3 $LOCAL $REMOTE''"]
    by blast
qed

text \<open>
  C6, as stated: in one invocation of save the writes are issued in a fixed order, and
  after the first write that fails no further write is issued. This fails for the two
  calls that are made without \<open>await\<close>: when the promise of \<open>refreshAuthor\<close> is
  rejected, the rejection does not reach \<open>onSave\<close>, which issues the eight writes that
  follow and dismisses the dialog.
\<close>

theorem rejected_refresh_does_not_stop_save:
  "author_refresh_rejects (RefreshAuthor ''desktop'') = Rejects (Failure ''repository is gone'') \<and>
   trace (onSave sample_lib (raisedInto author_refresh_rejects) sample_props identity_edited) =
     [Issue (SetGlobalConfigValue ''user.name'' ''Mona Lisa''),
      Issue (SetGlobalConfigValue ''user.email'' ''lisa@example.com''),
      Issue (RefreshAuthor ''desktop''), Issue (SetDefaultBranch ''trunk''),
      Issue (SetStatsOptOut False False), Issue (SetConfirmRepoRemovalSetting True),
      Issue (SetConfirmForcePushSetting True), Issue (SetExternalEditor ''Atom''),
      Issue (SetShell ''bash''), Issue (SetConfirmDiscardChangesSetting True),
      Issue (SetUncommittedChangesStrategySetting ''AskForConfirmation''), OnDismissed] \<and>
   rejected (onSave sample_lib (raisedInto author_refresh_rejects) sample_props identity_edited) =
     None"
proof -
  have "\<forall>c\<in>set (saveCalls sample_props identity_edited).
      raisedInto author_refresh_rejects c = None"
    by (simp add: saveCalls_identity_edited raisedInto_def)
  then show ?thesis
    by (simp add: onSave_no_failure saveCalls_identity_edited)
qed

text \<open>
  C6, amended: in one invocation of save the writes are issued one after another in a
  fixed order, and after the first write whose failure reaches save (a call that
  throws, or an awaited call whose promise is rejected) no further write is issued.
  The calls of the trace are an initial segment of the list \<open>saveCalls\<close>, which
  depends on the props and the state only and follows the order of the source
  (\<open>place\<close> increases); every call comes before the dismissal and the error report;
  and a call that throws, or that is awaited and rejected, is the last call of the
  trace.
\<close>

theorem writes_in_fixed_order_until_failure_reaches_save:
  "(\<exists>rest. saveCalls props st =
      issuedCalls (trace (onSave L (raisedInto conduct) props st)) @ rest) \<and>
   sorted_wrt (\<lambda>a b. place a < place b)
     (issuedCalls (trace (onSave L (raisedInto conduct) props st))) \<and>
   (\<exists>tail. trace (onSave L (raisedInto conduct) props st) =
              map Issue (issuedCalls (trace (onSave L (raisedInto conduct) props st))) @ tail \<and>
            issuedCalls tail = []) \<and>
   (\<forall>i < length (issuedCalls (trace (onSave L (raisedInto conduct) props st))).
      ((\<exists>e. conduct (issuedCalls (trace (onSave L (raisedInto conduct) props st)) ! i) = Throws e) \<or>
       (\<exists>e. conduct (issuedCalls (trace (onSave L (raisedInto conduct) props st)) ! i) = Rejects e) \<and>
       awaited (issuedCalls (trace (onSave L (raisedInto conduct) props st)) ! i)) \<longrightarrow>
      Suc i = length (issuedCalls (trace (onSave L (raisedInto conduct) props st))))"
proof -
  let ?throws = "raisedInto conduct"
  let ?calls = "issuedCalls (trace (onSave L ?throws props st))"
  have calls: "?calls = fst (perform ?throws (saveCalls props st))"
    by (rule issuedCalls_onSave)
  obtain rest where rest: "saveCalls props st = ?calls @ rest"
    using perform_prefix[of "saveCalls props st" ?throws] calls by auto
  have "sorted_wrt (\<lambda>a b. place a < place b) (?calls @ rest)"
    using sorted_saveCalls[of props st] rest by simp
  then have sorted: "sorted_wrt (\<lambda>a b. place a < place b) ?calls"
    by (simp add: sorted_wrt_append)
  have "Suc i = length ?calls"
    if "i < length ?calls"
      and "(\<exists>e. conduct (?calls ! i) = Throws e) \<or>
           (\<exists>e. conduct (?calls ! i) = Rejects e) \<and> awaited (?calls ! i)" for i
  proof -
    from that(2) have "?throws (?calls ! i) \<noteq> None"
      by (rule raisedInto_reaches)
    with that(1) show ?thesis
      unfolding calls by (blast intro: perform_failing_is_last)
  qed
  then have last: "\<forall>i < length ?calls.
      ((\<exists>e. conduct (?calls ! i) = Throws e) \<or>
       (\<exists>e. conduct (?calls ! i) = Rejects e) \<and> awaited (?calls ! i)) \<longrightarrow>
      Suc i = length ?calls"
    by blast
  from rest sorted trace_onSave_shape[of L ?throws props st] last show ?thesis
    by blast
qed

theorem writes_in_fixed_order_until_failure_reaches_save_witness:
  "issuedCalls (trace (onSave sample_lib (raisedInto email_write_rejects) sample_props
       identity_edited)) =
     [SetGlobalConfigValue ''user.name'' ''Mona Lisa'',
      SetGlobalConfigValue ''user.email'' ''lisa@example.com''] \<and>
   email_write_rejects (SetGlobalConfigValue ''user.email'' ''lisa@example.com'') =
     Rejects (Failure ''disk full'') \<and>
   awaited (SetGlobalConfigValue ''user.email'' ''lisa@example.com'') \<and>
   (\<exists>rest. saveCalls sample_props identity_edited =
      issuedCalls (trace (onSave sample_lib (raisedInto email_write_rejects) sample_props
        identity_edited)) @ rest) \<and>
   sorted_wrt (\<lambda>a b. place a < place b)
     (issuedCalls (trace (onSave sample_lib (raisedInto email_write_rejects) sample_props
        identity_edited)))"
proof -
  have "issuedCalls (trace (onSave sample_lib (raisedInto email_write_rejects) sample_props
       identity_edited)) =
     [SetGlobalConfigValue ''user.name'' ''Mona Lisa'',
      SetGlobalConfigValue ''user.email'' ''lisa@example.com'']"
    by (simp add: issuedCalls_onSave saveCalls_identity_edited raisedInto_def)
  then show ?thesis
    using writes_in_fixed_order_until_failure_reaches_save
      [of sample_props identity_edited sample_lib email_write_rejects]
    by simp
qed

text \<open>
  C2. If the first write of a save that fails is a write to the configuration store (or
  any other call of the \<open>try\<close> block), and the error is a configuration lock error from
  which a lock file path \<open>p\<close> can be extracted, then the dialog is not dismissed, no
  error is reported, the selected tab becomes the Git tab, the lock file path is
  recorded, and every other field of the state is as it was.
\<close>

theorem lock_error_keeps_dialog_open_on_git_tab:
  assumes "firstFailure throws (saveCalls props st) = Some (c, e)"
    and "isConfigStoreWrite c \<or> c \<in> set (tryBlockCalls props st)"
    and "isConfigFileLockError L e"
    and "parseConfigLockFilePathFromError L e = Some p"
  shows "OnDismissed \<notin> set (trace (onSave L throws props st)) \<and>
         reportedErrors (trace (onSave L throws props st)) = [] \<and>
         rejected (onSave L throws props st) = None \<and>
         selectedIndex (state_after (onSave L throws props st)) = Git \<and>
         state_after (onSave L throws props st) =
           st \<lparr> existingLockFilePath := Some p, selectedIndex := Git \<rparr>"
proof -
  from assms(1,2) have "firstFailure throws (tryBlockCalls props st) = Some (c, e)"
    by (rule failure_inside_tryBlock)
  from onSave_guarded_failure[OF this, of L] obtain pre where
    save: "onSave L throws props st =
             \<lparr> state_after = fst (catchBlock L st e),
               trace = map Issue (pre @ [c]) @ snd (catchBlock L st e),
               rejected = None \<rparr>"
    by blast
  from assms(3,4) have "catchBlock L st e =
      (st \<lparr> existingLockFilePath := Some p, selectedIndex := Git \<rparr>, [])"
    by (simp add: catchBlock_def)
  with save have "onSave L throws props st =
      \<lparr> state_after = st \<lparr> existingLockFilePath := Some p, selectedIndex := Git \<rparr>,
        trace = map Issue (pre @ [c]), rejected = None \<rparr>"
    by simp
  then show ?thesis
    by (auto simp: reportedErrors_map_Issue reportedErrors_append)
qed

theorem lock_error_keeps_dialog_open_on_git_tab_witness:
  "firstFailure lock_on_email (saveCalls sample_props identity_edited) =
     Some (SetGlobalConfigValue ''user.email'' ''lisa@example.com'',
           LockError ''/home/mona/.gitconfig.lock'') \<and>
   isConfigStoreWrite (SetGlobalConfigValue ''user.email'' ''lisa@example.com'') \<and>
   isConfigFileLockError sample_lib (LockError ''/home/mona/.gitconfig.lock'') \<and>
   parseConfigLockFilePathFromError sample_lib (LockError ''/home/mona/.gitconfig.lock'') =
     Some ''/home/mona/.gitconfig.lock'' \<and>
   OnDismissed \<notin> set (trace (onSave sample_lib lock_on_email sample_props identity_edited)) \<and>
   state_after (onSave sample_lib lock_on_email sample_props identity_edited) =
     identity_edited \<lparr> existingLockFilePath := Some ''/home/mona/.gitconfig.lock'',
                       selectedIndex := Git \<rparr>"
proof -
  have h1: "firstFailure lock_on_email (saveCalls sample_props identity_edited) =
     Some (SetGlobalConfigValue ''user.email'' ''lisa@example.com'',
           LockError ''/home/mona/.gitconfig.lock'')"
    by (simp add: saveCalls_identity_edited)
  have h3: "isConfigFileLockError sample_lib (LockError ''/home/mona/.gitconfig.lock'')"
    by (simp add: sample_lib_def)
  have h4: "parseConfigLockFilePathFromError sample_lib (LockError ''/home/mona/.gitconfig.lock'') =
     Some ''/home/mona/.gitconfig.lock''"
    by (simp add: sample_lib_def)
  have h2: "isConfigStoreWrite (SetGlobalConfigValue ''user.email'' ''lisa@example.com'') \<or>
      SetGlobalConfigValue ''user.email'' ''lisa@example.com''
        \<in> set (tryBlockCalls sample_props identity_edited)"
    by simp
  from lock_error_keeps_dialog_open_on_git_tab[OF h1 h2 h3 h4] h1 h3 h4
  show ?thesis by simp
qed

text \<open>
  C4, as stated: if a write during save fails with an error that is not a lock error
  with an extractable path, the dialog is dismissed exactly once and exactly one error
  is reported. This fails for the writes after the \<open>try\<close> statement: when
  \<open>setStatsOptOut\<close> fails, the error leaves \<open>onSave\<close>, the dialog is not dismissed
  and nothing is reported.
\<close>

theorem failure_after_try_block_is_not_handled:
  "firstFailure failure_on_stats (saveCalls sample_props identity_edited) =
     Some (SetStatsOptOut False False, Failure ''store unavailable'') \<and>
   \<not> isConfigFileLockError sample_lib (Failure ''store unavailable'') \<and>
   trace (onSave sample_lib failure_on_stats sample_props identity_edited) =
     [Issue (SetGlobalConfigValue ''user.name'' ''Mona Lisa''),
      Issue (SetGlobalConfigValue ''user.email'' ''lisa@example.com''),
      Issue (RefreshAuthor ''desktop''), Issue (SetDefaultBranch ''trunk''),
      Issue (SetStatsOptOut False False)] \<and>
   rejected (onSave sample_lib failure_on_stats sample_props identity_edited) =
     Some (Failure ''store unavailable'')"
proof -
  have "perform failure_on_stats (tryBlockCalls sample_props identity_edited) =
      (tryBlockCalls sample_props identity_edited, None)"
    by (simp add: tryBlockCalls_identity_edited)
  moreover have "perform failure_on_stats (dispatcherCalls identity_edited) =
      ([SetStatsOptOut False False], Some (Failure ''store unavailable''))"
    by (simp add: dispatcherCalls_def identity_edited_eq opened_eq)
  ultimately have "onSave sample_lib failure_on_stats sample_props identity_edited =
      \<lparr> state_after = identity_edited,
        trace = map Issue (tryBlockCalls sample_props identity_edited @
                  [SetStatsOptOut False False]),
        rejected = Some (Failure ''store unavailable'') \<rparr>"
    by (simp add: onSave_def)
  then show ?thesis
    by (simp add: saveCalls_identity_edited tryBlockCalls_identity_edited sample_lib_def)
qed

text \<open>
  C4, amended: if the first failure that reaches save comes from a call inside the
  \<open>try\<close> block, that is, an awaited write to the configuration store whose promise is
  rejected (\<open>setGlobalConfigValue\<close>, \<open>removeGlobalConfigValue\<close>, \<open>setDefaultBranch\<close>) or
  a call of the block that throws, and its error is not a lock error with an
  extractable path, then the dialog is dismissed exactly once, exactly that error is
  reported, the failing call was issued once and no call was issued twice, and the
  draft is unchanged. A rejected promise of \<open>refreshAuthor\<close> or of
  \<open>setRepositoryIndicatorsEnabled\<close> is not such a failure: they are not awaited.
\<close>

theorem failure_reaching_try_block_dismisses_and_reports_once:
  assumes "firstFailure (raisedInto conduct) (tryBlockCalls props st) = Some (c, e)"
    and "\<not> (isConfigFileLockError L e \<and> parseConfigLockFilePathFromError L e \<noteq> None)"
  shows "(conduct c = Throws e \<or> conduct c = Rejects e \<and> isConfigStoreWrite c) \<and>
         count_list (trace (onSave L (raisedInto conduct) props st)) OnDismissed = 1 \<and>
         reportedErrors (trace (onSave L (raisedInto conduct) props st)) = [e] \<and>
         count_list (issuedCalls (trace (onSave L (raisedInto conduct) props st))) c = 1 \<and>
         distinct (issuedCalls (trace (onSave L (raisedInto conduct) props st))) \<and>
         rejected (onSave L (raisedInto conduct) props st) = None \<and>
         state_after (onSave L (raisedInto conduct) props st) = st"
proof -
  let ?throws = "raisedInto conduct"
  from firstFailure_SomeD[OF assms(1)] have "c \<in> set (tryBlockCalls props st)"
    and "?throws c = Some e"
    by auto
  then have kind: "conduct c = Throws e \<or> conduct c = Rejects e \<and> isConfigStoreWrite c"
    using raisedInto_SomeD[of conduct c e] awaited_in_tryBlock[of c props st] by blast
  from onSave_guarded_failure[OF assms(1), of L] obtain pre where
    save: "onSave L ?throws props st =
             \<lparr> state_after = fst (catchBlock L st e),
               trace = map Issue (pre @ [c]) @ snd (catchBlock L st e),
               rejected = None \<rparr>"
    by blast
  from assms(2) have "catchBlock L st e = (st, [OnDismissed, PostError e])"
    by (auto simp: catchBlock_def split: option.splits)
  with save have save': "onSave L ?throws props st =
      \<lparr> state_after = st, trace = map Issue (pre @ [c]) @ [OnDismissed, PostError e],
        rejected = None \<rparr>"
    by simp
  have calls: "issuedCalls (trace (onSave L ?throws props st)) = pre @ [c]"
    by (simp add: save' issuedCalls_append issuedCalls_map_Issue)
  obtain rest where "saveCalls props st = (pre @ [c]) @ rest"
    using perform_prefix[of "saveCalls props st" ?throws]
    by (metis calls issuedCalls_onSave)
  moreover have "distinct (saveCalls props st)"
    using sorted_saveCalls by (rule sorted_wrt_place_distinct)
  ultimately have distinct: "distinct (pre @ [c])"
    by (metis distinct_append)
  then have "count_list (pre @ [c]) c = 1"
    by (simp add: count_list_0_iff)
  with distinct calls kind show ?thesis
    by (simp add: save' count_OnDismissed_map_Issue reportedErrors_append
        reportedErrors_map_Issue)
qed

theorem failure_reaching_try_block_dismisses_and_reports_once_witness:
  "firstFailure (raisedInto email_write_rejects) (tryBlockCalls sample_props identity_edited) =
     Some (SetGlobalConfigValue ''user.email'' ''lisa@example.com'', Failure ''disk full'') \<and>
   \<not> (isConfigFileLockError sample_lib (Failure ''disk full'') \<and>
      parseConfigLockFilePathFromError sample_lib (Failure ''disk full'') \<noteq> None) \<and>
   email_write_rejects (SetGlobalConfigValue ''user.email'' ''lisa@example.com'') =
     Rejects (Failure ''disk full'') \<and>
   count_list (trace (onSave sample_lib (raisedInto email_write_rejects) sample_props
     identity_edited)) OnDismissed = 1 \<and>
   reportedErrors (trace (onSave sample_lib (raisedInto email_write_rejects) sample_props
     identity_edited)) = [Failure ''disk full'']"
proof -
  have h1: "firstFailure (raisedInto email_write_rejects)
       (tryBlockCalls sample_props identity_edited) =
     Some (SetGlobalConfigValue ''user.email'' ''lisa@example.com'', Failure ''disk full'')"
    by (simp add: tryBlockCalls_identity_edited raisedInto_def)
  have h2: "\<not> (isConfigFileLockError sample_lib (Failure ''disk full'') \<and>
      parseConfigLockFilePathFromError sample_lib (Failure ''disk full'') \<noteq> None)"
    by (simp add: sample_lib_def)
  from failure_reaching_try_block_dismisses_and_reports_once[OF h1 h2] h1 h2
  show ?thesis by simp
qed

text \<open>
  C1, as stated: for every preferences field, save issues a write if and only if the
  drafted value differs from the initial value. This fails in both directions. In the
  dialog opened on \<open>with_identity\<close> with the default branch cleared, the draft of the
  default branch differs from its initial value and is not written, while the usage
  tracking flag, the three confirmations, the editor, the shell and the strategy are
  as they were loaded and are all written.
\<close>

theorem unchanged_settings_written_changed_branch_not:
  "Some (defaultBranch branch_cleared) \<noteq> initialDefaultBranch branch_cleared \<and>
   optOutOfUsageTracking branch_cleared = optOutOfUsageTracking_prop sample_props \<and>
   confirmForcePush branch_cleared = confirmForcePush_prop sample_props \<and>
   selectedShell branch_cleared = selectedShell_prop sample_props \<and>
   trace (onSave sample_lib no_faults sample_props branch_cleared) =
     [Issue (SetStatsOptOut False False), Issue (SetConfirmRepoRemovalSetting True),
      Issue (SetConfirmForcePushSetting True), Issue (SetExternalEditor ''Atom''),
      Issue (SetShell ''bash''), Issue (SetConfirmDiscardChangesSetting True),
      Issue (SetUncommittedChangesStrategySetting ''AskForConfirmation''), OnDismissed]"
proof -
  have "saveCalls sample_props branch_cleared =
     [SetStatsOptOut False False, SetConfirmRepoRemovalSetting True,
      SetConfirmForcePushSetting True, SetExternalEditor ''Atom'', SetShell ''bash'',
      SetConfirmDiscardChangesSetting True,
      SetUncommittedChangesStrategySetting ''AskForConfirmation'']"
    by (simp add: branch_cleared_eq opened_eq save_defs sample_defs js_defs)
  moreover have "\<forall>c\<in>set (saveCalls sample_props branch_cleared). no_faults c = None"
    by simp
  ultimately show ?thesis
    by (simp add: onSave_no_failure branch_cleared_eq opened_eq sample_props_def)
qed

text \<open>
  C1, amended: in a save in which no write fails (there is no first failure),
  \<^item> \<open>user.name\<close> and \<open>user.email\<close> are written if and only if the draft differs from
    the initial value, and \<open>setRepositoryIndicatorsEnabled\<close> is called if and only if
    the draft differs from the prop;
  \<^item> the default branch, \<open>merge.tool\<close> and \<open>mergetool.<name>.cmd\<close> are written if and
    only if the draft is not empty and differs from the initial value;
  \<^item> the settings that have no initial value (usage tracking, the three confirmations,
    the shell, the strategy for uncommitted changes) are written in any case.
\<close>

theorem save_writes_what_changed:
  assumes "firstFailure throws (saveCalls props st) = None"
  shows
    "((Issue (SetGlobalConfigValue ''user.name'' va) \<in> set (trace (onSave L throws props st))) =
        (va = committerName st \<and> Some va \<noteq> initialCommitterName st)) \<and>
     ((Issue (SetGlobalConfigValue ''user.email'' vb) \<in> set (trace (onSave L throws props st))) =
        (vb = committerEmail st \<and> Some vb \<noteq> initialCommitterEmail st)) \<and>
     ((Issue (SetRepositoryIndicatorsEnabled vc) \<in> set (trace (onSave L throws props st))) =
        (vc = repositoryIndicatorsEnabled st \<and> vc \<noteq> repositoryIndicatorsEnabled_prop props)) \<and>
     ((Issue (SetDefaultBranch vd) \<in> set (trace (onSave L throws props st))) =
        (vd = defaultBranch st \<and> vd \<noteq> '''' \<and> Some vd \<noteq> initialDefaultBranch st)) \<and>
     ((Issue (SetGlobalConfigValue ''merge.tool'' ve) \<in> set (trace (onSave L throws props st))) =
        (ve = mergeToolName st \<and> ve \<noteq> '''' \<and> Some ve \<noteq> initialMergeToolName st)) \<and>
     ((Issue (SetGlobalConfigValue (''mergetool.'' @ mergeToolName st @ ''.cmd'') vf)
          \<in> set (trace (onSave L throws props st))) =
        (vf = mergeToolCommand st \<and> vf \<noteq> '''' \<and> Some vf \<noteq> initialMergeToolCommand st)) \<and>
     Issue (SetStatsOptOut (optOutOfUsageTracking st) False)
       \<in> set (trace (onSave L throws props st)) \<and>
     Issue (SetConfirmRepoRemovalSetting (confirmRepositoryRemoval st))
       \<in> set (trace (onSave L throws props st)) \<and>
     Issue (SetConfirmForcePushSetting (confirmForcePush st))
       \<in> set (trace (onSave L throws props st)) \<and>
     Issue (SetShell (selectedShell st)) \<in> set (trace (onSave L throws props st)) \<and>
     Issue (SetConfirmDiscardChangesSetting (confirmDiscardChanges st))
       \<in> set (trace (onSave L throws props st)) \<and>
     Issue (SetUncommittedChangesStrategySetting (uncommittedChangesStrategy st))
       \<in> set (trace (onSave L throws props st))"
proof -
  from assms have none: "\<forall>c\<in>set (saveCalls props st). throws c = None"
    by (simp add: firstFailure_None_iff)
  have issued: "Issue c \<in> set (trace (onSave L throws props st)) \<longleftrightarrow> c \<in> set (saveCalls props st)"
    for c
    by (auto simp: onSave_no_failure[OF none])
  have always: "set (dispatcherCalls st) \<subseteq> set (saveCalls props st)"
    by (simp add: saveCalls_def)
  have "SetStatsOptOut (optOutOfUsageTracking st) False \<in> set (dispatcherCalls st)"
    "SetConfirmRepoRemovalSetting (confirmRepositoryRemoval st) \<in> set (dispatcherCalls st)"
    "SetConfirmForcePushSetting (confirmForcePush st) \<in> set (dispatcherCalls st)"
    "SetShell (selectedShell st) \<in> set (dispatcherCalls st)"
    "SetConfirmDiscardChangesSetting (confirmDiscardChanges st) \<in> set (dispatcherCalls st)"
    "SetUncommittedChangesStrategySetting (uncommittedChangesStrategy st)
       \<in> set (dispatcherCalls st)"
    by (simp_all add: dispatcherCalls_def)
  with always have
    "SetStatsOptOut (optOutOfUsageTracking st) False \<in> set (saveCalls props st)"
    "SetConfirmRepoRemovalSetting (confirmRepositoryRemoval st) \<in> set (saveCalls props st)"
    "SetConfirmForcePushSetting (confirmForcePush st) \<in> set (saveCalls props st)"
    "SetShell (selectedShell st) \<in> set (saveCalls props st)"
    "SetConfirmDiscardChangesSetting (confirmDiscardChanges st) \<in> set (saveCalls props st)"
    "SetUncommittedChangesStrategySetting (uncommittedChangesStrategy st)
       \<in> set (saveCalls props st)"
    by blast+
  moreover have "(SetGlobalConfigValue (''mergetool.'' @ mergeToolName st @ ''.cmd'') vf
        \<in> set (saveCalls props st)) =
      (vf = mergeToolCommand st \<and> vf \<noteq> '''' \<and> Some vf \<noteq> initialMergeToolCommand st)"
    unfolding merge_tool_command_listed by simp
  ultimately show ?thesis
    unfolding issued user_name_listed user_email_listed repository_indicators_listed
      default_branch_listed merge_tool_listed
    by blast
qed

theorem save_writes_what_changed_witness:
  "firstFailure no_faults (saveCalls sample_props identity_edited) = None \<and>
   Issue (SetGlobalConfigValue ''user.name'' ''Mona Lisa'')
     \<in> set (trace (onSave sample_lib no_faults sample_props identity_edited)) \<and>
   Issue (SetGlobalConfigValue ''user.email'' ''lisa@example.com'')
     \<in> set (trace (onSave sample_lib no_faults sample_props identity_edited)) \<and>
   Issue (SetDefaultBranch ''trunk'')
     \<in> set (trace (onSave sample_lib no_faults sample_props identity_edited)) \<and>
   Issue (SetGlobalConfigValue ''merge.tool'' ''meld'')
     \<notin> set (trace (onSave sample_lib no_faults sample_props identity_edited)) \<and>
   Issue (SetRepositoryIndicatorsEnabled True)
     \<notin> set (trace (onSave sample_lib no_faults sample_props identity_edited))"
proof -
  have h: "firstFailure no_faults (saveCalls sample_props identity_edited) = None"
    by (simp add: firstFailure_None_iff)
  have fields:
    "committerName identity_edited = ''Mona Lisa''"
    "initialCommitterName identity_edited = Some ''Mona''"
    "committerEmail identity_edited = ''lisa@example.com''"
    "initialCommitterEmail identity_edited = Some ''mona@example.com''"
    "defaultBranch identity_edited = ''trunk''"
    "initialDefaultBranch identity_edited = Some ''main''"
    "mergeToolName identity_edited = ''meld''"
    "initialMergeToolName identity_edited = Some ''meld''"
    "repositoryIndicatorsEnabled identity_edited = True"
    "repositoryIndicatorsEnabled_prop sample_props = True"
    by (simp_all add: identity_edited_eq opened_eq sample_props_def)
  from save_writes_what_changed
    [OF h, where L = sample_lib and va = "''Mona Lisa''" and vb = "''lisa@example.com''"
       and vc = True and vd = "''trunk''" and ve = "''meld''" and vf = "''meld''"]
  show ?thesis
    unfolding fields using h by (simp del: no_faults.simps)
qed

text \<open>
  C5, as stated: between the opening of the dialog and the save, user edits only change
  the state of the component and dispatch nothing to a collaborator. This fails for the
  theme: selecting one calls \<open>dispatcher.setSelectedTheme\<close> at once.
\<close>

theorem theme_change_is_dispatched_at_once:
  "handle sample_lib opened (SelectedThemeChanged ''dark'') =
     (opened, [Issue (SetSelectedTheme ''dark'')])"
  by (simp add: onSelectedThemeChanged_def)

text \<open>
  C5, amended: in any run of interactions with the open dialog, a call is issued to a
  collaborator if and only if one of the interactions is the selection of a theme, a
  sign-in or a logout; every other handler (the drafts of the committer, the default
  branch, the merge tool, the editor, the shell, the confirmations, usage tracking, the
  strategy, the repository indicators, the tab, the lock file) only changes the state.
\<close>

theorem only_theme_and_accounts_act_before_save:
  "(\<exists>c. Issue c \<in> set (snd (interact L st inputs))) = (\<exists>i\<in>set inputs. actsAtOnce i)"
proof (induction inputs arbitrary: st)
  case Nil
  then show ?case by simp
next
  case (Cons i rest)
  have one: "(\<exists>c. Issue c \<in> set (snd (handle L st i))) = actsAtOnce i"
    by (cases i) (auto simp: handler_defs)
  obtain st' evs where h: "handle L st i = (st', evs)"
    by (cases "handle L st i")
  obtain st'' evs' where r: "interact L st' rest = (st'', evs')"
    by (cases "interact L st' rest")
  from Cons.IH[of st'] r have "(\<exists>c. Issue c \<in> set evs') = (\<exists>i\<in>set rest. actsAtOnce i)"
    by simp
  moreover from one h have "(\<exists>c. Issue c \<in> set evs) = actsAtOnce i"
    by simp
  ultimately show ?case
    using h r by auto
qed

theorem only_theme_and_accounts_act_before_save_witness:
  "(\<exists>i\<in>set [CommitterNameChanged ''Mona Lisa'', SelectedThemeChanged ''dark'',
              DefaultBranchChanged ''trunk'']. actsAtOnce (i :: sample_error interaction)) \<and>
   (\<exists>c. Issue c \<in> set (snd (interact sample_lib opened
      [CommitterNameChanged ''Mona Lisa'', SelectedThemeChanged ''dark'',
       DefaultBranchChanged ''trunk''])))"
proof -
  have h: "\<exists>i\<in>set [CommitterNameChanged ''Mona Lisa'', SelectedThemeChanged ''dark'',
              DefaultBranchChanged ''trunk'']. actsAtOnce (i :: sample_error interaction)"
    by simp
  with only_theme_and_accounts_act_before_save
    [of sample_lib opened "[CommitterNameChanged ''Mona Lisa'', SelectedThemeChanged ''dark'',
       DefaultBranchChanged ''trunk'']"]
  show ?thesis by blast
qed

text \<open>
  C10. When the custom merge tool is switched off, save is to remove the keys
  \<open>merge.tool\<close> and \<open>mergetool.<initial merge tool name>.cmd\<close>. The code builds the
  second key without the dot after \<open>mergetool\<close>: with the initial merge tool \<open>meld\<close>
  it removes \<open>mergetoolmeld.cmd\<close>, and \<open>mergetool.meld.cmd\<close>, the key that was read at
  load, is not removed.
\<close>

theorem merge_tool_command_removed_under_wrong_key:
  "initialMergeToolName merge_tool_disabled = Some ''meld'' \<and>
   useCustomMergeTool merge_tool_disabled = False \<and>
   initialUseCustomMergeTool merge_tool_disabled = True \<and>
   trace (onSave sample_lib no_faults sample_props merge_tool_disabled) =
     [Issue (RemoveGlobalConfigValue ''merge.tool''),
      Issue (RemoveGlobalConfigValue ''mergetoolmeld.cmd''),
      Issue (SetStatsOptOut False False), Issue (SetConfirmRepoRemovalSetting True),
      Issue (SetConfirmForcePushSetting True), Issue (SetExternalEditor ''Atom''),
      Issue (SetShell ''bash''), Issue (SetConfirmDiscardChangesSetting True),
      Issue (SetUncommittedChangesStrategySetting ''AskForConfirmation''), OnDismissed] \<and>
   Issue (RemoveGlobalConfigValue ''mergetool.meld.cmd'')
     \<notin> set (trace (onSave sample_lib no_faults sample_props merge_tool_disabled))"
proof -
  have "saveCalls sample_props merge_tool_disabled =
     [RemoveGlobalConfigValue ''merge.tool'', RemoveGlobalConfigValue ''mergetoolmeld.cmd'',
      SetStatsOptOut False False, SetConfirmRepoRemovalSetting True,
      SetConfirmForcePushSetting True, SetExternalEditor ''Atom'', SetShell ''bash'',
      SetConfirmDiscardChangesSetting True,
      SetUncommittedChangesStrategySetting ''AskForConfirmation'']"
    by (simp add: merge_tool_disabled_eq opened_eq save_defs sample_defs js_defs)
  moreover have "\<forall>c\<in>set (saveCalls sample_props merge_tool_disabled). no_faults c = None"
    by simp
  ultimately show ?thesis
    by (simp add: onSave_no_failure merge_tool_disabled_eq opened_eq)
qed

text \<open>
  C8. On load, when the global configuration has no \<open>user.name\<close> (no \<open>user.email\<close>) and
  there is a dotCom account, or else an enterprise account, the committer name (email)
  of the state is that account's login (its preferred email); with no account it is the
  empty string. The two fields have the type \<open>string\<close>: they are never \<open>null\<close>.
\<close>

theorem load_prefills_committer_from_account:
  "(getGlobalConfigValue W ''user.name'' = None \<and>
      (dotComAccount props = Some a \<or>
       dotComAccount props = None \<and> enterpriseAccount props = Some a) \<longrightarrow>
      committerName (componentWillMount L W props st) = login a) \<and>
   (getGlobalConfigValue W ''user.email'' = None \<and>
      (dotComAccount props = Some a \<or>
       dotComAccount props = None \<and> enterpriseAccount props = Some a) \<longrightarrow>
      committerEmail (componentWillMount L W props st) = lookupPreferredEmail L a) \<and>
   (getGlobalConfigValue W ''user.name'' = None \<and>
      dotComAccount props = None \<and> enterpriseAccount props = None \<longrightarrow>
      committerName (componentWillMount L W props st) = '''') \<and>
   (getGlobalConfigValue W ''user.email'' = None \<and>
      dotComAccount props = None \<and> enterpriseAccount props = None \<longrightarrow>
      committerEmail (componentWillMount L W props st) = '''')"
  by (auto simp: componentWillMount_def prefillCommitter_def Let_def js_defs
      split: option.splits)

theorem load_prefills_committer_from_account_witness:
  "getGlobalConfigValue without_identity ''user.name'' = None \<and>
   getGlobalConfigValue without_identity ''user.email'' = None \<and>
   dotComAccount sample_props = Some \<lparr> login = ''octocat'' \<rparr> \<and>
   committerName (componentWillMount sample_lib without_identity sample_props
     (constructor_Preferences sample_lib sample_props)) = ''octocat'' \<and>
   committerEmail (componentWillMount sample_lib without_identity sample_props
     (constructor_Preferences sample_lib sample_props)) = ''octocat@users.noreply.github.com'' \<and>
   dotComAccount no_account = None \<and> enterpriseAccount no_account = None \<and>
   committerName (componentWillMount sample_lib without_identity no_account
     (constructor_Preferences sample_lib no_account)) = '''' \<and>
   committerEmail (componentWillMount sample_lib without_identity no_account
     (constructor_Preferences sample_lib no_account)) = ''''"
proof -
  have h1: "getGlobalConfigValue without_identity ''user.name'' = None"
    "getGlobalConfigValue without_identity ''user.email'' = None"
    by (simp_all add: without_identity_def)
  have h2: "dotComAccount sample_props = Some \<lparr> login = ''octocat'' \<rparr>"
    by (simp add: sample_props_def)
  have h3: "dotComAccount no_account = None" "enterpriseAccount no_account = None"
    by (simp_all add: no_account_def sample_props_def)
  have h4: "lookupPreferredEmail sample_lib \<lparr> login = ''octocat'' \<rparr> =
      ''octocat@users.noreply.github.com''"
    by (simp add: sample_lib_def)
  from load_prefills_committer_from_account
      [of without_identity sample_props "\<lparr> login = ''octocat'' \<rparr>" sample_lib
          "constructor_Preferences sample_lib sample_props"]
    load_prefills_committer_from_account
      [of without_identity no_account "\<lparr> login = ''octocat'' \<rparr>" sample_lib
          "constructor_Preferences sample_lib no_account"]
    h1 h2 h3 h4
  show ?thesis by simp
qed

text \<open>
  C7, as stated: when loading completes, every editable field with an initial shadow
  holds the value of its shadow, so a save with no edits issues no configuration write.
  This fails when the store has no committer identity and an account is signed in: the
  shadows record that nothing was configured, the fields are filled from the account,
  and a save with no edits writes \<open>user.name\<close> and \<open>user.email\<close>.
\<close>

theorem prefilled_identity_is_written_without_edits:
  "initialCommitterName opened_without_identity = None \<and>
   committerName opened_without_identity = ''octocat'' \<and>
   initialCommitterEmail opened_without_identity = None \<and>
   committerEmail opened_without_identity = ''octocat@users.noreply.github.com'' \<and>
   trace (onSave sample_lib no_faults sample_props opened_without_identity) =
     [Issue (SetGlobalConfigValue ''user.name'' ''octocat''),
      Issue (SetGlobalConfigValue ''user.email'' ''octocat@users.noreply.github.com''),
      Issue (RefreshAuthor ''desktop''),
      Issue (SetStatsOptOut False False), Issue (SetConfirmRepoRemovalSetting True),
      Issue (SetConfirmForcePushSetting True), Issue (SetExternalEditor ''Atom''),
      Issue (SetShell ''bash''), Issue (SetConfirmDiscardChangesSetting True),
      Issue (SetUncommittedChangesStrategySetting ''AskForConfirmation''), OnDismissed]"
proof -
  have st: "opened_without_identity =
      opened \<lparr> committerName := ''octocat'',
               committerEmail := ''octocat@users.noreply.github.com'',
               initialCommitterName := None, initialCommitterEmail := None \<rparr>"
    by (simp add: opened_without_identity_def opened_eq load_defs sample_defs js_defs)
  have "saveCalls sample_props opened_without_identity =
     [SetGlobalConfigValue ''user.name'' ''octocat'',
      SetGlobalConfigValue ''user.email'' ''octocat@users.noreply.github.com'',
      RefreshAuthor ''desktop'',
      SetStatsOptOut False False, SetConfirmRepoRemovalSetting True,
      SetConfirmForcePushSetting True, SetExternalEditor ''Atom'', SetShell ''bash'',
      SetConfirmDiscardChangesSetting True,
      SetUncommittedChangesStrategySetting ''AskForConfirmation'']"
    by (simp add: st opened_eq save_defs sample_defs js_defs)
  moreover have "\<forall>c\<in>set (saveCalls sample_props opened_without_identity). no_faults c = None"
    by simp
  ultimately show ?thesis
    by (simp add: onSave_no_failure st opened_eq)
qed

text \<open>
  C7, amended: when the global configuration has a non-empty \<open>user.name\<close>, a non-empty
  \<open>user.email\<close>, a non-empty \<open>merge.tool\<close> and a command for that merge tool, then
  after loading every editable field with an initial shadow holds the value of its
  shadow, and a save with no edits issues no write to the configuration store,
  whatever the collaborators do.
\<close>

theorem loaded_fields_mirror_configured_values:
  assumes "truthy (getGlobalConfigValue W ''user.name'')"
    and "truthy (getGlobalConfigValue W ''user.email'')"
    and "getGlobalConfigValue W ''merge.tool'' = Some m" and "m \<noteq> ''''"
    and "getGlobalConfigValue W (''mergetool.'' @ m @ ''.cmd'') \<noteq> None"
  shows "Some (committerName (loaded L W props)) = initialCommitterName (loaded L W props) \<and>
         Some (committerEmail (loaded L W props)) = initialCommitterEmail (loaded L W props) \<and>
         Some (defaultBranch (loaded L W props)) = initialDefaultBranch (loaded L W props) \<and>
         Some (mergeToolName (loaded L W props)) = initialMergeToolName (loaded L W props) \<and>
         Some (mergeToolCommand (loaded L W props)) =
           initialMergeToolCommand (loaded L W props) \<and>
         useCustomMergeTool (loaded L W props) = initialUseCustomMergeTool (loaded L W props) \<and>
         (\<forall>c. Issue c \<in> set (trace (onSave L throws props (loaded L W props))) \<longrightarrow>
              \<not> isConfigStoreWrite c)"
proof -
  from assms(1) obtain n where n: "getGlobalConfigValue W ''user.name'' = Some n" "n \<noteq> ''''"
    by (auto simp: truthy_def split: option.splits)
  from assms(2) obtain e where e: "getGlobalConfigValue W ''user.email'' = Some e" "e \<noteq> ''''"
    by (auto simp: truthy_def split: option.splits)
  from assms(5) obtain cmd where
    cmd: "getGlobalConfigValue W (''mergetool.'' @ m @ ''.cmd'') = Some cmd"
    by auto
  have command: "loadMergeToolCommand W (Some m) = Some cmd"
    using assms(4) cmd by (simp add: loadMergeToolCommand_def js_defs)
  have committer: "prefillCommitter L props (Some n) (Some e) = (Some n, Some e)"
    using n e by (simp add: prefillCommitter_def js_defs)
  have fields:
    "committerName (loaded L W props) = n" "initialCommitterName (loaded L W props) = Some n"
    "committerEmail (loaded L W props) = e" "initialCommitterEmail (loaded L W props) = Some e"
    "Some (defaultBranch (loaded L W props)) = initialDefaultBranch (loaded L W props)"
    "mergeToolName (loaded L W props) = m" "initialMergeToolName (loaded L W props) = Some m"
    "mergeToolCommand (loaded L W props) = cmd"
    "initialMergeToolCommand (loaded L W props) = Some cmd"
    "useCustomMergeTool (loaded L W props) = initialUseCustomMergeTool (loaded L W props)"
    "repositoryIndicatorsEnabled (loaded L W props) = repositoryIndicatorsEnabled_prop props"
    using n e assms(3) command committer
    by (simp_all add: loaded_def componentWillMount_def constructor_Preferences_def Let_def
        orEmpty_def)
  have "tryBlockCalls props (loaded L W props) = []"
    by (simp add: tryBlockCalls_def saveCommitter_def saveDefaultBranch_def
        saveRepositoryIndicators_def saveMergeTool_def Let_def fields split: option.splits)
  then have calls: "saveCalls props (loaded L W props) = dispatcherCalls (loaded L W props)"
    by (simp add: saveCalls_def)
  have "\<not> isConfigStoreWrite c"
    if "Issue c \<in> set (trace (onSave L throws props (loaded L W props)))" for c
    using issued_in_saveCalls[OF that] dispatcherCalls_no_config_write[of c "loaded L W props"]
    by (simp add: calls)
  with fields show ?thesis
    by simp
qed

theorem loaded_fields_mirror_configured_values_witness:
  "truthy (getGlobalConfigValue with_identity ''user.name'') \<and>
   truthy (getGlobalConfigValue with_identity ''user.email'') \<and>
   getGlobalConfigValue with_identity ''merge.tool'' = Some ''meld'' \<and>
   getGlobalConfigValue with_identity (''mergetool.'' @ ''meld'' @ ''.cmd'') \<noteq> None \<and>
   Some (committerName (loaded sample_lib with_identity sample_props)) =
     initialCommitterName (loaded sample_lib with_identity sample_props) \<and>
   Issue (SetGlobalConfigValue ''user.name'' ''Mona'')
     \<notin> set (trace (onSave sample_lib no_faults sample_props
                     (loaded sample_lib with_identity sample_props)))"
proof -
  have h1: "truthy (getGlobalConfigValue with_identity ''user.name'')"
    and h2: "truthy (getGlobalConfigValue with_identity ''user.email'')"
    and h3: "getGlobalConfigValue with_identity ''merge.tool'' = Some ''meld''"
    and h4: "''meld'' \<noteq> ''''"
    and h5: "getGlobalConfigValue with_identity (''mergetool.'' @ ''meld'' @ ''.cmd'') \<noteq> None"
    by (simp_all add: with_identity_def truthy_def)
  have "isConfigStoreWrite (SetGlobalConfigValue ''user.name'' ''Mona'')"
    by simp
  with loaded_fields_mirror_configured_values
    [OF h1 h2 h3 h4 h5, of sample_lib sample_props no_faults] h1 h2 h3 h5
  show ?thesis by blast
qed

end
